theory Spec2Isabelle
  imports Complex_Main
begin

section \<open>JavaScript values used by the extension\<close>

text \<open>
  Strings are lists of characters, and the characters are those of ASCII: the text of an
  invoice line and the currency codes are ASCII. Amounts of money and exchange rates are
  JavaScript numbers in the source; they are modelled as exact rationals, so rounding
  errors of binary floating point are not part of the model, and request counts are
  natural numbers of any size.
\<close>

fun startsWith :: "string \<Rightarrow> string \<Rightarrow> bool" where
  "startsWith s [] = True"
| "startsWith [] (p # ps) = False"
| "startsWith (c # cs) (p # ps) = (c = p \<and> startsWith cs ps)"

text \<open>\<^verbatim>\<open>s.includes(sub)\<close>: \<open>sub\<close> occurs in \<open>s\<close> as a contiguous substring.\<close>

fun includesStr :: "string \<Rightarrow> string \<Rightarrow> bool" where
  "includesStr [] sub = (sub = [])"
| "includesStr (c # cs) sub = (startsWith (c # cs) sub \<or> includesStr cs sub)"

definition toLowerChar :: "char \<Rightarrow> char" where
  "toLowerChar c =
     (case map_of (zip ''ABCDEFGHIJKLMNOPQRSTUVWXYZ'' ''abcdefghijklmnopqrstuvwxyz'') c of
        Some l \<Rightarrow> l
      | None \<Rightarrow> c)"

text \<open>\<^verbatim>\<open>s.toLowerCase()\<close> on the ASCII letters.\<close>

definition toLowerCase :: "string \<Rightarrow> string" where
  "toLowerCase s = map toLowerChar s"

text \<open>
  The result of JavaScript arithmetic on numbers: a finite number, an infinity or NaN.
\<close>

datatype jsnum = Num rat | PosInfinity | NegInfinity | NaN

text \<open>
  The names of the properties that every object made by an object literal or by
  \<^verbatim>\<open>JSON.parse\<close> inherits from \<^verbatim>\<open>Object.prototype\<close>. Their values are functions,
  and the prototype itself for \<^verbatim>\<open>__proto__\<close>: all of them are truthy, and none is a
  number or a string.
\<close>

definition objectPrototypeKeys :: "string list" where
  "objectPrototypeKeys =
     [''constructor'', ''__defineGetter__'', ''__defineSetter__'', ''hasOwnProperty'',
      ''__lookupGetter__'', ''__lookupSetter__'', ''isPrototypeOf'', ''propertyIsEnumerable'',
      ''toString'', ''valueOf'', ''__proto__'', ''toLocaleString'']"

text \<open>
  The value of \<^verbatim>\<open>obj[key]\<close> on such an object: the own property when there is one,
  else the inherited property of that name, else \<^verbatim>\<open>undefined\<close>.
\<close>

datatype 'a property = Undefined | Own 'a | Inherited string

definition getProperty :: "(string \<rightharpoonup> 'a) \<Rightarrow> string \<Rightarrow> 'a property" where
  "getProperty obj key =
     (case obj key of
        Some v \<Rightarrow> Own v
      | None \<Rightarrow> if key \<in> set objectPrototypeKeys then Inherited key else Undefined)"

section \<open>Errors (interfaces/errors.ts)\<close>

text \<open>
  A thrown value. \<open>ApiError\<close> is an axios error with the HTTP status of its response,
  \<open>TypeError\<close> is the runtime's error for reading a property of \<^verbatim>\<open>undefined\<close>,
  \<open>Error\<close> is \<^verbatim>\<open>new Error(message)\<close>.
\<close>

datatype error = ApiError nat string | TypeError string | Error string

fun getErrorMessage :: "error \<Rightarrow> string" where
  "getErrorMessage (ApiError status msg) = msg"
| "getErrorMessage (TypeError msg) = msg"
| "getErrorMessage (Error msg) = msg"

section \<open>The outside world\<close>

text \<open>
  A file of the extension directory: missing, present but not parseable
  (\<^verbatim>\<open>JSON.parse\<close> throws), or holding a record.
\<close>

datatype 'a stored = Missing | Corrupt | Content 'a

datatype endpoint =
    CurrencyApi
  | UsageApi
  | TeamsApi
  | TeamApi
  | TeamUsageApi
  | HardLimitApi
  | MonthlyInvoiceApi nat int

text \<open>
  The log of what a run did to the outside: reads and writes of a cache file, and each
  HTTP request with its outcome (\<open>True\<close> when the server answered, \<open>False\<close> when the
  request threw).
\<close>

datatype effect = CacheRead | CacheWrite | Request endpoint bool

record CurrencyRates =
  date :: string
  usd :: "(string \<rightharpoonup> rat) option"

record CurrencyCache =
  rates :: CurrencyRates
  timestamp :: int

text \<open>
  The membership cache record \<^verbatim>\<open>user-cache.json\<close>. A field that the parsed JSON may
  lack is an option.
\<close>

record UserCache =
  cache_userId :: nat
  cache_jwtSub :: "string option"
  cache_isTeamMember :: bool
  cache_teamId :: "nat option"
  lastChecked :: int
  cache_startOfMonth :: "string option"

text \<open>The mutable state: the two cache files and the log of effects.\<close>

record world =
  currencyCacheFile :: "CurrencyCache stored"
  userCacheFile :: "UserCache stored"
  effects :: "effect list"

record ModelUsage =
  numRequests :: rat
  maxRequestUsage :: rat

record CursorUsageResponse =
  gpt4 :: ModelUsage
  usage_startOfMonth :: string

record Team =
  team_id :: nat

record TeamInfo =
  teams :: "Team list option"

record TeamMemberInfo =
  member_userId :: nat
  teamMembers :: "nat list"

record UsageData =
  modelType :: string
  usage_numRequests :: "rat option"
  usage_maxRequestUsage :: rat

record TeamMemberUsage =
  member_id :: nat
  usageData :: "UsageData list"

record TeamUsageResponse =
  teamMemberUsage :: "TeamMemberUsage list"

record UsageLimitResponse =
  hardLimit :: "rat option"
  noUsageBasedAllowed :: "bool option"

text \<open>\<^verbatim>\<open>new Date()\<close>, read through \<^verbatim>\<open>getFullYear\<close>, \<^verbatim>\<open>getMonth\<close> (0 to 11) and \<^verbatim>\<open>getDate\<close>.\<close>

record Date =
  getFullYear :: int
  getMonth :: nat
  getDate :: nat

text \<open>One line of the monthly invoice feed; \<open>cents\<close> is \<open>None\<close> when the line has none.\<close>

record InvoiceItem =
  description :: string
  cents :: "int option"

record MonthlyInvoiceApiResponse =
  invoice_items :: "InvoiceItem list option"
  invoice_hasUnpaidMidMonthInvoice :: "bool option"

text \<open>
  What the extension reads from outside: the clock, whether a file write succeeds, the
  answer of each endpoint to a request (as a function of the request's parameters, the
  session token first), the subject of a decoded JWT, and the localized strings \<open>t\<close>.
\<close>

record env =
  now :: int
  currentDate :: Date
  writeSucceeds :: bool
  currencyApi :: "error + CurrencyRates"
  usageApi :: "string \<Rightarrow> string \<Rightarrow> error + CursorUsageResponse"
  teamsApi :: "string \<Rightarrow> error + TeamInfo"
  teamApi :: "string \<Rightarrow> nat \<Rightarrow> error + TeamMemberInfo"
  teamUsageApi :: "string \<Rightarrow> nat \<Rightarrow> error + TeamUsageResponse"
  hardLimitApi :: "string \<Rightarrow> error + UsageLimitResponse option"
  monthlyInvoiceApi :: "string \<Rightarrow> nat \<Rightarrow> int \<Rightarrow> error + MonthlyInvoiceApiResponse"
  jwtSubOf :: "string option \<Rightarrow> string option"
  t :: "string \<Rightarrow> string"

definition request :: "world \<Rightarrow> endpoint \<Rightarrow> error + 'a \<Rightarrow> world" where
  "request w ep answer = w\<lparr>effects := effects w @ [Request ep (\<not> isl answer)]\<rparr>"

section \<open>Currency cache and converter (utils/currency.ts)\<close>

definition CACHE_EXPIRY_MS :: int where
  "CACHE_EXPIRY_MS = 24 * 60 * 60 * 1000"

definition symbolMap :: "(string \<times> string) list" where
  "symbolMap =
    [(''USD'', ''$''),
     (''EUR'', [CHR 0xE2, CHR 0x82, CHR 0xAC]),
     (''GBP'', [CHR 0xC2, CHR 0xA3]),
     (''JPY'', [CHR 0xC2, CHR 0xA5]),
     (''AUD'', ''A$''),
     (''CAD'', ''C$''),
     (''CHF'', ''CHF''),
     (''CNY'', [CHR 0xC2, CHR 0xA5]),
     (''INR'', [CHR 0xE2, CHR 0x82, CHR 0xB9]),
     (''MXN'', ''Mex$''),
     (''BRL'', ''R$''),
     (''RUB'', [CHR 0xE2, CHR 0x82, CHR 0xBD]),
     (''KRW'', [CHR 0xE2, CHR 0x82, CHR 0xA9]),
     (''SGD'', ''S$''),
     (''NZD'', ''NZ$''),
     (''TRY'', [CHR 0xE2, CHR 0x82, CHR 0xBA]),
     (''ZAR'', ''R''),
     (''SEK'', ''kr''),
     (''NOK'', ''kr''),
     (''DKK'', ''kr''),
     (''HKD'', ''HK$''),
     (''TWD'', ''NT$''),
     (''PHP'', [CHR 0xE2, CHR 0x82, CHR 0xB1]),
     (''THB'', [CHR 0xE0, CHR 0xB8, CHR 0xBF]),
     (''IDR'', ''Rp''),
     (''VND'', [CHR 0xE2, CHR 0x82, CHR 0xAB]),
     (''ILS'', [CHR 0xE2, CHR 0x82, CHR 0xAA]),
     (''AED'', [CHR 0xD8, CHR 0xAF, CHR 0x2E, CHR 0xD8, CHR 0xA5]),
     (''SAR'', [CHR 0xEF, CHR 0xB7, CHR 0xBC]),
     (''MYR'', ''RM''),
     (''PLN'', [CHR 0x7A, CHR 0xC5, CHR 0x82]),
     (''CZK'', [CHR 0x4B, CHR 0xC4, CHR 0x8D]),
     (''HUF'', ''Ft''),
     (''RON'', ''lei''),
     (''BGN'', [CHR 0xD0, CHR 0xBB, CHR 0xD0, CHR 0xB2]),
     (''HRK'', ''kn''),
     (''EGP'', [CHR 0x45, CHR 0xC2, CHR 0xA3]),
     (''QAR'', [CHR 0xD8, CHR 0xB1, CHR 0x2E, CHR 0xD9, CHR 0x82]),
     (''KWD'', [CHR 0xD8, CHR 0xAF, CHR 0x2E, CHR 0xD9, CHR 0x83]),
     (''MAD'', [CHR 0xD8, CHR 0xAF, CHR 0x2E, CHR 0xD9, CHR 0x85, CHR 0x2E])]"

text \<open>
  What \<open>getCurrencySymbol\<close> returns: a string, or the value of a property that
  \<open>symbolMap\<close> inherits, given by the property's name.
\<close>

datatype symbolValue = Str string | InheritedValue string

text \<open>\<^verbatim>\<open>symbolMap[currencyCode] || currencyCode\<close>; the symbols are given as UTF-8 bytes.\<close>

definition getCurrencySymbol :: "string \<Rightarrow> symbolValue" where
  "getCurrencySymbol currencyCode =
     (case getProperty (map_of symbolMap) currencyCode of
        Own s \<Rightarrow> (if s = [] then Str currencyCode else Str s)
      | Inherited k \<Rightarrow> InheritedValue k
      | Undefined \<Rightarrow> Str currencyCode)"

text \<open>
  \<open>getCachedRates\<close>: every exception of the body is caught and answered with
  \<^verbatim>\<open>null\<close>, so the result is an option and never an error.
\<close>

definition getCachedRates :: "env \<Rightarrow> world \<Rightarrow> world \<times> CurrencyRates option" where
  "getCachedRates env w =
     (let w1 = w\<lparr>effects := effects w @ [CacheRead]\<rparr> in
      case currencyCacheFile w of
        Missing \<Rightarrow> (w1, None)
      | Corrupt \<Rightarrow> (w1, None)
      | Content cache \<Rightarrow>
          if now env - timestamp cache < CACHE_EXPIRY_MS then (w1, Some (rates cache))
          else (w1, None))"

text \<open>\<open>saveCurrencyCache\<close>: a failing write is caught and logged.\<close>

definition saveCurrencyCache :: "env \<Rightarrow> world \<Rightarrow> CurrencyRates \<Rightarrow> world" where
  "saveCurrencyCache env w rs =
     (let w1 = w\<lparr>effects := effects w @ [CacheWrite]\<rparr> in
      if writeSucceeds env
      then w1\<lparr>currencyCacheFile := Content \<lparr>rates = rs, timestamp = now env\<rparr>\<rparr>
      else w1)"

text \<open>
  \<open>fetchExchangeRates\<close>: the cached rates when the cache is fresh, else a GET request.
  Any exception of the body (the request failing, or the response having no \<^verbatim>\<open>usd\<close>
  object, which makes \<^verbatim>\<open>Object.keys(response.data.usd)\<close> throw) is rethrown as a
  new \<open>Error\<close>.
\<close>

definition fetchExchangeRates :: "env \<Rightarrow> world \<Rightarrow> world \<times> (error + CurrencyRates)" where
  "fetchExchangeRates env w =
     (let (w1, cachedRates) = getCachedRates env w in
      case cachedRates of
        Some rs \<Rightarrow> (w1, Inr rs)
      | None \<Rightarrow>
          (let w2 = request w1 CurrencyApi (currencyApi env) in
           case currencyApi env of
             Inl e \<Rightarrow>
               (w2, Inl (Error (''Failed to fetch currency exchange rates: '' @ getErrorMessage e)))
           | Inr data \<Rightarrow>
               (case usd data of
                  None \<Rightarrow>
                    (w2, Inl (Error (''Failed to fetch currency exchange rates: ''
                                      @ getErrorMessage (TypeError ''Cannot convert undefined or null to object''))))
                | Some m \<Rightarrow> (saveCurrencyCache env w2 data, Inr data))))"

record Converted =
  "value" :: jsnum
  symbol :: symbolValue

text \<open>
  \<open>convertAmount\<close>. The whole body is inside \<^verbatim>\<open>try\<close>; the handler returns the amount
  with the dollar sign. The rate is \<^verbatim>\<open>rates.usd[targetCurrency.toLowerCase()]\<close>, a
  property read on the parsed JSON object. \<^verbatim>\<open>!rate\<close> holds for \<^verbatim>\<open>undefined\<close> and
  for the rate 0; an inherited property is truthy, and the product of the amount with it
  is NaN.
\<close>

definition convertAmount :: "env \<Rightarrow> world \<Rightarrow> rat \<Rightarrow> string \<Rightarrow> world \<times> (error + Converted)" where
  "convertAmount env w amount targetCurrency =
     (if targetCurrency = ''USD'' then (w, Inr \<lparr>value = Num amount, symbol = Str ''$''\<rparr>)
      else
        (let (w1, fetched) = fetchExchangeRates env w in
         case fetched of
           Inl e \<Rightarrow> (w1, Inr \<lparr>value = Num amount, symbol = Str ''$''\<rparr>)
         | Inr rs \<Rightarrow>
             (case usd rs of
                None \<Rightarrow> (w1, Inr \<lparr>value = Num amount, symbol = Str ''$''\<rparr>)
              | Some m \<Rightarrow>
                  (case getProperty m (toLowerCase targetCurrency) of
                     Undefined \<Rightarrow> (w1, Inr \<lparr>value = Num amount, symbol = Str ''$''\<rparr>)
                   | Own rate \<Rightarrow>
                       if rate = 0 then (w1, Inr \<lparr>value = Num amount, symbol = Str ''$''\<rparr>)
                       else (w1, Inr \<lparr>value = Num (amount * rate),
                                        symbol = getCurrencySymbol targetCurrency\<rparr>)
                   | Inherited k \<Rightarrow>
                       (w1, Inr \<lparr>value = NaN, symbol = getCurrencySymbol targetCurrency\<rparr>)))))"

section \<open>Team membership resolver (services/team.ts)\<close>

text \<open>
  \<^verbatim>\<open>s.split(sep)\<close> for a non-empty separator. The second argument counts the
  characters of a separator just found that are still to be skipped, the third holds the
  current piece in reverse.
\<close>

fun splitGo :: "string \<Rightarrow> nat \<Rightarrow> string \<Rightarrow> string \<Rightarrow> string list" where
  "splitGo sep k acc [] = [rev acc]"
| "splitGo sep (Suc k) acc (c # cs) = splitGo sep k acc cs"
| "splitGo sep 0 acc (c # cs) =
     (if startsWith (c # cs) sep then rev acc # splitGo sep (length sep - 1) [] cs
      else splitGo sep 0 (c # acc) cs)"

definition split :: "string \<Rightarrow> string \<Rightarrow> string list" where
  "split s sep = splitGo sep 0 [] s"

text \<open>\<^verbatim>\<open>xs[i]\<close>: \<^verbatim>\<open>undefined\<close> out of range.\<close>

definition elemAt :: "'a list \<Rightarrow> nat \<Rightarrow> 'a option" where
  "elemAt xs i = (if i < length xs then Some (xs ! i) else None)"

text \<open>Truthiness of an optional string and of an optional number.\<close>

definition truthyStr :: "string option \<Rightarrow> bool" where
  "truthyStr s = (case s of None \<Rightarrow> False | Some v \<Rightarrow> v \<noteq> [])"

definition truthyNat :: "nat option \<Rightarrow> bool" where
  "truthyNat n = (case n of None \<Rightarrow> False | Some v \<Rightarrow> v \<noteq> 0)"

text \<open>\<open>loadUserCache\<close>: a missing file and every exception give \<^verbatim>\<open>null\<close>.\<close>

definition loadUserCache :: "world \<Rightarrow> world \<times> UserCache option" where
  "loadUserCache w =
     (let w1 = w\<lparr>effects := effects w @ [CacheRead]\<rparr> in
      case userCacheFile w of
        Missing \<Rightarrow> (w1, None)
      | Corrupt \<Rightarrow> (w1, None)
      | Content cache \<Rightarrow> (w1, Some cache))"

text \<open>\<open>saveUserCache\<close>: a failing write is caught and logged.\<close>

definition saveUserCache :: "env \<Rightarrow> world \<Rightarrow> UserCache \<Rightarrow> world" where
  "saveUserCache env w cache =
     (let w1 = w\<lparr>effects := effects w @ [CacheWrite]\<rparr> in
      if writeSucceeds env then w1\<lparr>userCacheFile := Content cache\<rparr> else w1)"

record TeamMembership =
  isTeamMember :: bool
  teamId :: "nat option"
  userId :: "nat option"
  startOfMonth :: string

text \<open>
  \<open>checkTeamMembership\<close>. Each \<^verbatim>\<open>await axios\<close> either yields the response or throws;
  the handler of the enclosing \<^verbatim>\<open>try\<close> logs and rethrows, so a failing request ends
  the function with that error.
\<close>

definition checkTeamMembership :: "env \<Rightarrow> world \<Rightarrow> string \<Rightarrow> world \<times> (error + TeamMembership)" where
  "checkTeamMembership env w token =
     (let jwtToken = elemAt (split token ''%3A%3A'') 1;
          jwtSub = jwtSubOf env jwtToken;
          (w1, cache) = loadUserCache w
      in
      case (case cache of
              Some c \<Rightarrow> if cache_jwtSub c = jwtSub \<and> truthyStr (cache_startOfMonth c)
                        then Some c else None
            | None \<Rightarrow> None) of
        Some c \<Rightarrow>
          (w1, Inr \<lparr>isTeamMember = cache_isTeamMember c,
                    teamId = cache_teamId c,
                    userId = Some (cache_userId c),
                    startOfMonth = the (cache_startOfMonth c)\<rparr>)
      | None \<Rightarrow>
          (let tokenUserId = hd (split token ''%3A%3A'');
               usageAnswer = usageApi env token tokenUserId;
               w2 = request w1 UsageApi usageAnswer
           in
           case usageAnswer of
             Inl e \<Rightarrow> (w2, Inl e)
           | Inr usageResponse \<Rightarrow>
               (let startOfMonth' = usage_startOfMonth usageResponse;
                    teamsAnswer = teamsApi env token;
                    w3 = request w2 TeamsApi teamsAnswer
                in
                case teamsAnswer of
                  Inl e \<Rightarrow> (w3, Inl e)
                | Inr response \<Rightarrow>
                    (let isTeamMember' = (case teams response of None \<Rightarrow> False | Some ts \<Rightarrow> length ts > 0);
                         teamId' = (case teams response of
                                      None \<Rightarrow> None
                                    | Some ts \<Rightarrow> map_option team_id (elemAt ts 0));
                         (w4, teamUserId) =
                           (if isTeamMember' \<and> truthyNat teamId'
                            then (let teamAnswer = teamApi env token (the teamId');
                                      w4 = request w3 TeamApi teamAnswer
                                  in case teamAnswer of
                                       Inl e \<Rightarrow> (w4, Inl e)
                                     | Inr teamResponse \<Rightarrow> (w4, Inr (Some (member_userId teamResponse))))
                            else (w3, Inr None))
                     in
                     case teamUserId of
                       Inl e \<Rightarrow> (w4, Inl e)
                     | Inr teamUserId' \<Rightarrow>
                         (let cacheData = \<lparr>cache_userId = (case teamUserId' of Some u \<Rightarrow> u | None \<Rightarrow> 0),
                                           cache_jwtSub = jwtSub,
                                           cache_isTeamMember = isTeamMember',
                                           cache_teamId = teamId',
                                           lastChecked = now env,
                                           cache_startOfMonth = Some startOfMonth'\<rparr>;
                              w5 = saveUserCache env w4 cacheData
                          in (w5, Inr \<lparr>isTeamMember = isTeamMember',
                                       teamId = teamId',
                                       userId = teamUserId',
                                       startOfMonth = startOfMonth'\<rparr>))))))"

definition getTeamUsage :: "env \<Rightarrow> world \<Rightarrow> string \<Rightarrow> nat \<Rightarrow> world \<times> (error + TeamUsageResponse)" where
  "getTeamUsage env w token teamId' =
     (let answer = teamUsageApi env token teamId' in (request w TeamUsageApi answer, answer))"

record UserUsage =
  user_numRequests :: rat
  user_maxRequestUsage :: rat

definition extractUserUsage :: "TeamUsageResponse \<Rightarrow> nat \<Rightarrow> error + UserUsage" where
  "extractUserUsage teamUsage userId' =
     (case find (\<lambda>member. member_id member = userId') (teamMemberUsage teamUsage) of
        None \<Rightarrow> Inl (Error ''User usage data not found in team usage response'')
      | Some userUsage \<Rightarrow>
          (case find (\<lambda>d. modelType d = ''gpt-4'') (usageData userUsage) of
             None \<Rightarrow> Inl (Error ''GPT-4 usage data not found for user'')
           | Some gpt4Usage \<Rightarrow>
               Inr \<lparr>user_numRequests = (case usage_numRequests gpt4Usage of Some n \<Rightarrow> n | None \<Rightarrow> 0),
                    user_maxRequestUsage = usage_maxRequestUsage gpt4Usage\<rparr>))"

section \<open>Usage limit (services/api.ts)\<close>

definition getCurrentUsageLimit :: "env \<Rightarrow> world \<Rightarrow> string \<Rightarrow> world \<times> (error + UsageLimitResponse option)" where
  "getCurrentUsageLimit env w token =
     (let answer = hardLimitApi env token in (request w HardLimitApi answer, answer))"

record UsageStatus =
  isEnabled :: bool
  status_limit :: "rat option"

text \<open>
  \<open>checkUsageBasedStatus\<close>. The request and the reads of the response are inside
  \<^verbatim>\<open>try\<close>; a response body that is \<^verbatim>\<open>null\<close> makes the read of
  \<^verbatim>\<open>response.noUsageBasedAllowed\<close> throw a TypeError, which the handler catches like a
  failed request. \<^verbatim>\<open>!response.noUsageBasedAllowed\<close> is true when the field is absent.
\<close>

definition checkUsageBasedStatus :: "env \<Rightarrow> world \<Rightarrow> string \<Rightarrow> world \<times> (error + UsageStatus)" where
  "checkUsageBasedStatus env w token =
     (let (w1, got) = getCurrentUsageLimit env w token in
      case (case got of
              Inl e \<Rightarrow> Inl e
            | Inr None \<Rightarrow> Inl (TypeError ''Cannot read properties of null'')
            | Inr (Some response) \<Rightarrow>
                Inr \<lparr>isEnabled = \<not> (noUsageBasedAllowed response = Some True),
                     status_limit = hardLimit response\<rparr>) of
        Inr status \<Rightarrow> (w1, Inr status)
      | Inl e \<Rightarrow> (w1, Inr \<lparr>isEnabled = False, status_limit = None\<rparr>))"

section \<open>Usage records (interfaces/types.ts, as used by the services)\<close>

text \<open>
  A usage item as \<open>fetchMonthData\<close> builds it. The item of a mid-month payment has no
  model name and no discount flag.
\<close>

record UsageItem =
  calculation :: string
  totalDollars :: string
  item_description :: string
  modelNameForTooltip :: "string option"
  isDiscounted :: "bool option"

record MonthData =
  items :: "UsageItem list"
  hasUnpaidMidMonthInvoice :: bool
  midMonthPayment :: rat

record MonthStats =
  month :: nat
  year :: int
  usageBasedPricing :: MonthData

record PremiumRequests =
  current :: rat
  limit :: rat
  premium_startOfMonth :: string

record CursorStats =
  currentMonth :: MonthStats
  lastMonth :: MonthStats
  premiumRequests :: PremiumRequests

section \<open>Regular expressions\<close>

text \<open>
  The patterns of the source are written as terms of \<open>regex\<close> and run by a backtracking
  matcher that follows the order in which a JavaScript engine tries the alternatives:
  the first way of matching found is the result, a greedy quantifier tries one more
  repetition before it stops, a lazy one stops before it tries one more.
\<close>

datatype citem = IChar char | IDigit | IWord | ISpace

datatype regex =
    Lit char
  | AnyChar
  | OneOf "citem list"
  | NoneOf "citem list"
  | Bol
  | Eol
  | WordB
  | Eps
  | Seq regex regex
  | Alt regex regex
  | Greedy nat "nat option" regex
  | Lazy nat "nat option" regex
  | Group nat regex

definition isDigitChar :: "char \<Rightarrow> bool" where
  "isDigitChar c = (c \<in> set ''0123456789'')"

definition isWordChar :: "char \<Rightarrow> bool" where
  "isWordChar c =
     (c \<in> set ''abcdefghijklmnopqrstuvwxyzABCDEFGHIJKLMNOPQRSTUVWXYZ0123456789_'')"

definition isSpaceChar :: "char \<Rightarrow> bool" where
  "isSpaceChar c = (c \<in> set [CHR '' '', CHR 0x09, CHR 0x0A, CHR 0x0B, CHR 0x0C, CHR 0x0D])"

definition isLineTerminator :: "char \<Rightarrow> bool" where
  "isLineTerminator c = (c \<in> set [CHR 0x0A, CHR 0x0D])"

text \<open>With the flag \<^verbatim>\<open>i\<close>, characters are compared after canonicalization.\<close>

definition canon :: "bool \<Rightarrow> char \<Rightarrow> char" where
  "canon ic c = (if ic then toLowerChar c else c)"

text \<open>
  A state of the matcher: the character before the current position, the input from the
  current position on (each character with its canonical form), and the captures so far,
  the latest first.
\<close>

record mstate =
  prev :: "char option"
  rest :: "(char \<times> char) list"
  caps :: "(nat \<times> string) list"

fun itemMatches :: "bool \<Rightarrow> char \<times> char \<Rightarrow> citem \<Rightarrow> bool" where
  "itemMatches ic (c, k) (IChar p) = (canon ic p = k)"
| "itemMatches ic (c, k) IDigit = isDigitChar c"
| "itemMatches ic (c, k) IWord = isWordChar c"
| "itemMatches ic (c, k) ISpace = isSpaceChar c"

definition step :: "mstate \<Rightarrow> (char \<times> char \<Rightarrow> bool) \<Rightarrow> mstate list" where
  "step st p =
     (case rest st of
        [] \<Rightarrow> []
      | ck # cs \<Rightarrow> if p ck then [st\<lparr>prev := Some (fst ck), rest := cs\<rparr>] else [])"

text \<open>
  A quantifier with bounds \<open>mn\<close> and \<open>mx\<close>. Once \<open>mn\<close> repetitions are done, a repetition
  that consumes nothing is rejected, so the number of repetitions is at most \<open>mn\<close> plus the
  length of the input left; the matcher passes this bound as \<open>fuel\<close>.
\<close>

fun repeat :: "(mstate \<Rightarrow> mstate list) \<Rightarrow> bool \<Rightarrow> nat \<Rightarrow> nat option \<Rightarrow> nat \<Rightarrow> mstate \<Rightarrow> mstate list" where
  "repeat body greedy mn mx 0 st = (if mn = 0 then [st] else [])"
| "repeat body greedy mn mx (Suc fuel) st =
     (let more = (if mx = Some 0 then []
                  else concat (map (\<lambda>st'. if mn = 0 \<and> length (rest st') \<ge> length (rest st) then []
                                          else repeat body greedy (mn - 1) (map_option (\<lambda>m. m - 1) mx) fuel st')
                                   (body st)));
          stop = (if mn = 0 then [st] else [])
      in if greedy then more @ stop else stop @ more)"

text \<open>All the ways of matching \<open>r\<close> at the current position, in the engine's order.\<close>

fun rmatch :: "bool \<Rightarrow> regex \<Rightarrow> mstate \<Rightarrow> mstate list" where
  "rmatch ic (Lit p) st = step st (\<lambda>(c, k). canon ic p = k)"
| "rmatch ic AnyChar st = step st (\<lambda>(c, k). \<not> isLineTerminator c)"
| "rmatch ic (OneOf its) st = step st (\<lambda>ck. list_ex (itemMatches ic ck) its)"
| "rmatch ic (NoneOf its) st = step st (\<lambda>ck. \<not> list_ex (itemMatches ic ck) its)"
| "rmatch ic Bol st = (if prev st = None then [st] else [])"
| "rmatch ic Eol st = (if rest st = [] then [st] else [])"
| "rmatch ic WordB st =
     (let a = (case prev st of None \<Rightarrow> False | Some c \<Rightarrow> isWordChar c);
          b = (case rest st of [] \<Rightarrow> False | (c, k) # cs \<Rightarrow> isWordChar c)
      in if a \<noteq> b then [st] else [])"
| "rmatch ic Eps st = [st]"
| "rmatch ic (Seq r1 r2) st = concat (map (\<lambda>st'. rmatch ic r2 st') (rmatch ic r1 st))"
| "rmatch ic (Alt r1 r2) st = rmatch ic r1 st @ rmatch ic r2 st"
| "rmatch ic (Greedy mn mx r) st =
     repeat (\<lambda>st'. rmatch ic r st') True mn mx (mn + length (rest st)) st"
| "rmatch ic (Lazy mn mx r) st =
     repeat (\<lambda>st'. rmatch ic r st') False mn mx (mn + length (rest st)) st"
| "rmatch ic (Group n r) st =
     map (\<lambda>st'. st'\<lparr>caps := (n, map fst (take (length (rest st) - length (rest st')) (rest st)))
                              # caps st'\<rparr>)
         (rmatch ic r st)"

text \<open>The first position of the input at which \<open>r\<close> matches, from left to right.\<close>

fun searchFrom :: "bool \<Rightarrow> regex \<Rightarrow> char option \<Rightarrow> (char \<times> char) list \<Rightarrow> mstate option" where
  "searchFrom ic r p [] =
     (case rmatch ic r \<lparr>prev = p, rest = [], caps = []\<rparr> of st # sts \<Rightarrow> Some st | [] \<Rightarrow> None)"
| "searchFrom ic r p (ck # cs) =
     (case rmatch ic r \<lparr>prev = p, rest = ck # cs, caps = []\<rparr> of
        st # sts \<Rightarrow> Some st
      | [] \<Rightarrow> searchFrom ic r (Some (fst ck)) cs)"

text \<open>
  \<^verbatim>\<open>s.match(re)\<close> for a pattern without the flag \<^verbatim>\<open>g\<close>: \<^verbatim>\<open>null\<close>, or the captured
  groups. The first argument is the flag \<^verbatim>\<open>i\<close>.
\<close>

definition match_js :: "bool \<Rightarrow> regex \<Rightarrow> string \<Rightarrow> (nat \<times> string) list option" where
  "match_js ic r s = map_option caps (searchFrom ic r None (map (\<lambda>c. (c, canon ic c)) s))"

text \<open>\<^verbatim>\<open>m[n]\<close> for a group that took part in the match.\<close>

definition group :: "(nat \<times> string) list \<Rightarrow> nat \<Rightarrow> string" where
  "group m n = (case map_of m n of Some s \<Rightarrow> s | None \<Rightarrow> [])"

definition lit :: "string \<Rightarrow> regex" where
  "lit s = foldr (\<lambda>c r. Seq (Lit c) r) s Eps"

definition seqs :: "regex list \<Rightarrow> regex" where
  "seqs rs = foldr Seq rs Eps"

definition alts :: "regex \<Rightarrow> regex list \<Rightarrow> regex" where
  "alts r rs = foldl Alt r rs"

definition optional :: "regex \<Rightarrow> regex" where
  "optional r = Greedy 0 (Some 1) r"

definition oneOrMore :: "regex \<Rightarrow> regex" where
  "oneOrMore r = Greedy 1 None r"

definition digit :: regex where
  "digit = OneOf [IDigit]"

section \<open>Numbers and their decimal notation\<close>

definition digitChar :: "nat \<Rightarrow> char" where
  "digitChar d = ''0123456789'' ! d"

text \<open>\<^verbatim>\<open>n.toString()\<close> for a natural number.\<close>

function natToString :: "nat \<Rightarrow> string" where
  "natToString n = (if n < 10 then [digitChar n] else natToString (n div 10) @ [digitChar (n mod 10)])"
  by pat_completeness auto
termination
  by (relation "measure id") auto

declare natToString.simps [simp del]

definition digitValue :: "char \<Rightarrow> nat" where
  "digitValue c =
     (case map_of (zip ''0123456789'' [0, 1, 2, 3, 4, 5, 6, 7, 8, 9]) c of
        Some d \<Rightarrow> d
      | None \<Rightarrow> 0)"

text \<open>\<^verbatim>\<open>Number.parseInt\<close> on a string of decimal digits.\<close>

definition parseInt :: "string \<Rightarrow> nat" where
  "parseInt ds = foldl (\<lambda>n c. 10 * n + digitValue c) 0 ds"

definition padStart :: "string \<Rightarrow> nat \<Rightarrow> char \<Rightarrow> string" where
  "padStart s w c = replicate (w - length s) c @ s"

text \<open>
  \<^verbatim>\<open>x.toFixed(d)\<close>: the sign, then the integer nearest to \<open>|x| * 10^d\<close> (a half rounded
  up) written with at least \<open>d + 1\<close> digits and the decimal point before the last \<open>d\<close>.
\<close>

definition toFixed :: "rat \<Rightarrow> nat \<Rightarrow> string" where
  "toFixed x d =
     (let n = nat \<lfloor>\<bar>x\<bar> * 10 ^ d + 1 / 2\<rfloor>;
          ds = padStart (natToString n) (d + 1) (CHR ''0'');
          whole = take (length ds - d) ds;
          frac = drop (length ds - d) ds
      in (if x < 0 then ''-'' else []) @ whole @ (if d = 0 then [] else ''.'' @ frac))"

section \<open>Monthly usage (services/api.ts)\<close>

text \<open>\<^verbatim>\<open>/^(\d+) token-based usage calls to ([\w.-]+), totalling: \$(?:[\d.]+)/\<close>\<close>

definition tokenBasedRegex :: regex where
  "tokenBasedRegex =
     seqs [Bol, Group 1 (oneOrMore digit), lit '' token-based usage calls to '',
           Group 2 (oneOrMore (OneOf [IWord, IChar CHR ''.'', IChar CHR ''-''])),
           lit '', totalling: $'', oneOrMore (OneOf [IDigit, IChar CHR ''.''])]"

text \<open>\<^verbatim>\<open>/^(\d+)\s+(.+?)(?: request| calls)?(?: beyond|\*| per|$)/i\<close>\<close>

definition originalRegex :: regex where
  "originalRegex =
     seqs [Bol, Group 1 (oneOrMore digit), oneOrMore (OneOf [ISpace]),
           Group 2 (Lazy 1 None AnyChar),
           optional (Alt (lit '' request'') (lit '' calls'')),
           alts (lit '' beyond'') [Lit CHR ''*'', lit '' per'', Eol]]"

text \<open>\<^verbatim>\<open>/^(\d+) token-based usage calls to/\<close> and \<^verbatim>\<open>/^(\d+)/\<close>\<close>

definition tokenBasedCountRegex :: regex where
  "tokenBasedCountRegex = seqs [Bol, Group 1 (oneOrMore digit), lit '' token-based usage calls to'']"

definition countRegex :: regex where
  "countRegex = seqs [Bol, Group 1 (oneOrMore digit)]"

text \<open>
  \<^verbatim>\<open>/(?:discounted\s+)?(claude-(?:3-(?:opus|sonnet|haiku)|3\.[57]-sonnet(?:-[\w-]+)?(?:-max)?|4-sonnet(?:-thinking)?)|gpt-(?:4(?:\.\d+|o-128k|-preview)?|3\.5-turbo)|gemini-(?:1\.5-flash-500k|2[.-]5-pro-(?:exp-\d{2}-\d{2}|preview-\d{2}-\d{2}|exp-max))|o[134](?:-mini)?)/i\<close>
\<close>

definition genericModelPattern :: regex where
  "genericModelPattern =
     seqs [WordB,
           optional (Seq (lit ''discounted'') (oneOrMore (OneOf [ISpace]))),
           Group 1
             (alts
                (Seq (lit ''claude-'')
                   (alts
                      (Seq (lit ''3-'') (alts (lit ''opus'') [lit ''sonnet'', lit ''haiku'']))
                      [seqs [lit ''3.'', OneOf [IChar CHR ''5'', IChar CHR ''7''], lit ''-sonnet'',
                             optional (Seq (Lit CHR ''-'') (oneOrMore (OneOf [IWord, IChar CHR ''-'']))),
                             optional (lit ''-max'')],
                       Seq (lit ''4-sonnet'') (optional (lit ''-thinking''))]))
                [Seq (lit ''gpt-'')
                   (alts
                      (Seq (Lit CHR ''4'')
                         (optional (alts (Seq (Lit CHR ''.'') (oneOrMore digit))
                                         [lit ''o-128k'', lit ''-preview''])))
                      [lit ''3.5-turbo'']),
                 Seq (lit ''gemini-'')
                   (alts
                      (lit ''1.5-flash-500k'')
                      [seqs [Lit CHR ''2'', OneOf [IChar CHR ''.'', IChar CHR ''-''], lit ''5-pro-'',
                             alts
                               (seqs [lit ''exp-'', Greedy 2 (Some 2) digit, Lit CHR ''-'',
                                      Greedy 2 (Some 2) digit])
                               [seqs [lit ''preview-'', Greedy 2 (Some 2) digit, Lit CHR ''-'',
                                      Greedy 2 (Some 2) digit],
                                lit ''exp-max'']]]),
                 seqs [Lit CHR ''o'', OneOf [IChar CHR ''1'', IChar CHR ''3'', IChar CHR ''4''],
                       optional (lit ''-mini'')]]),
           WordB]"

text \<open>\<^verbatim>\<open>/extra fast premium requests? \(([^)]+)\)/i\<close>\<close>

definition extraFastRegex :: regex where
  "extraFastRegex =
     seqs [lit ''extra fast premium request'', optional (Lit CHR ''s''), lit '' ('',
           Group 1 (oneOrMore (NoneOf [IChar CHR '')''])), Lit CHR '')'']"

text \<open>
  \<open>processMidMonthPayment\<close>: \<open>None\<close> for \<^verbatim>\<open>null\<close>, else the updated total and the
  usage item made for the payment.
\<close>

definition processMidMonthPayment :: "(string \<Rightarrow> string) \<Rightarrow> InvoiceItem \<Rightarrow> rat \<Rightarrow> (rat \<times> UsageItem) option" where
  "processMidMonthPayment t' item currentMidMonthTotal =
     (if \<not> includesStr (description item) ''Mid-month usage paid'' then None
      else case cents item of
        None \<Rightarrow> None
      | Some c \<Rightarrow>
          (let paymentAmount = \<bar>of_int c\<bar> / 100;
               updatedTotal = currentMidMonthTotal + paymentAmount;
               usageItem = \<lparr>calculation = t' ''api.midMonthPayment'' @ '': $'' @ toFixed updatedTotal 2,
                            totalDollars = ''-$'' @ toFixed updatedTotal 2,
                            item_description = description item,
                            modelNameForTooltip = None,
                            isDiscounted = None\<rparr>
           in Some (updatedTotal, usageItem)))"

text \<open>The body of the loop of \<open>calculatePaddingWidths\<close>, on the two running maxima.\<close>

definition paddingStep :: "nat \<times> rat \<Rightarrow> InvoiceItem \<Rightarrow> nat \<times> rat" where
  "paddingStep acc item =
     (case acc of (maxRequestCount, maxCostCentsForPadding) \<Rightarrow>
      case cents item of
        None \<Rightarrow> acc
      | Some c \<Rightarrow>
          if includesStr (description item) ''Mid-month usage paid'' then acc
          else
            (let currentItemRequestCount =
                   (case match_js False tokenBasedCountRegex (description item) of
                      Some m \<Rightarrow> parseInt (group m 1)
                    | None \<Rightarrow>
                        (case match_js False countRegex (description item) of
                           Some m \<Rightarrow> parseInt (group m 1)
                         | None \<Rightarrow> 0))
             in if currentItemRequestCount > 0
                then (max maxRequestCount currentItemRequestCount,
                      max maxCostCentsForPadding (of_int c / of_nat currentItemRequestCount))
                else acc))"

definition calculatePaddingWidths :: "InvoiceItem list \<Rightarrow> nat \<times> nat" where
  "calculatePaddingWidths its =
     (case foldl paddingStep (0, 0) its of (maxRequestCount, maxCostCentsForPadding) \<Rightarrow>
        (let paddingWidth = (if maxRequestCount > 0 then length (natToString maxRequestCount) else 1);
             costPaddingWidth = length (toFixed (maxCostCentsForPadding / 100) 3)
         in (paddingWidth, costPaddingWidth)))"

text \<open>
  The table \<open>modelParsingStrategies\<close> for one description: each entry is the value of its
  condition and the result of its parser (model name, tool-call flag).
\<close>

definition modelParsingStrategies :: "(string \<Rightarrow> string) \<Rightarrow> string \<Rightarrow> (bool \<times> string \<times> bool) list" where
  "modelParsingStrategies t' desc =
     (let specificModelMatch = match_js True genericModelPattern desc in
      [(includesStr desc ''tool calls'', (t' ''api.toolCalls'', True)),
       (specificModelMatch \<noteq> None,
        ((case specificModelMatch of Some m \<Rightarrow> group m 1 | None \<Rightarrow> t' ''statusBar.unknownModel''),
         False)),
       (includesStr desc ''extra fast premium request'',
        ((case match_js True extraFastRegex desc of
            Some m \<Rightarrow> (if group m 1 = [] then t' ''api.fastPremium'' else group m 1)
          | None \<Rightarrow> t' ''api.fastPremium''),
         False))])"

text \<open>
  The first strategy whose condition holds is applied; with none, the model is the
  unknown model.
\<close>

definition resolveModel :: "(string \<Rightarrow> string) \<Rightarrow> string \<Rightarrow> string \<times> bool" where
  "resolveModel t' desc =
     (case find fst (modelParsingStrategies t' desc) of
        Some matchedStrategy \<Rightarrow> snd matchedStrategy
      | None \<Rightarrow> (t' ''statusBar.unknownModel'', False))"

text \<open>
  The parse of one description: the request count, the model name and whether the line
  is a token-based one; \<open>None\<close> when the loop skips the line as unparsable.
\<close>

definition parseDescription :: "(string \<Rightarrow> string) \<Rightarrow> string \<Rightarrow> (nat \<times> string \<times> bool) option" where
  "parseDescription t' desc =
     (case match_js False tokenBasedRegex desc of
        Some tokenBasedMatch \<Rightarrow>
          Some (parseInt (group tokenBasedMatch 1), group tokenBasedMatch 2, True)
      | None \<Rightarrow>
          (case match_js True originalRegex desc of
             Some originalMatch \<Rightarrow>
               Some (parseInt (group originalMatch 1), fst (resolveModel t' desc), False)
           | None \<Rightarrow>
               (case match_js False countRegex desc of
                  Some fallbackCountMatch \<Rightarrow>
                    Some (parseInt (group fallbackCountMatch 1), t' ''statusBar.unknownModel'', False)
                | None \<Rightarrow> None)))"

text \<open>
  The body of the loop of \<open>fetchMonthData\<close>, on \<open>usageItems\<close> and \<open>midMonthPayment\<close>.
  A line of the feed has the property \<^verbatim>\<open>cents\<close> exactly when its value is defined.
\<close>

definition monthStep :: "(string \<Rightarrow> string) \<Rightarrow> nat \<Rightarrow> nat \<Rightarrow> UsageItem list \<times> rat \<Rightarrow> InvoiceItem \<Rightarrow> UsageItem list \<times> rat" where
  "monthStep t' paddingWidth costPaddingWidth acc item =
     (case acc of (usageItems, midMonthPayment') \<Rightarrow>
      if cents item = None then acc
      else
        case processMidMonthPayment t' item midMonthPayment' of
          Some midMonthResult \<Rightarrow> (usageItems @ [snd midMonthResult], fst midMonthResult)
        | None \<Rightarrow>
            (case cents item of
               None \<Rightarrow> acc
             | Some c \<Rightarrow>
                 (case parseDescription t' (description item) of
                    None \<Rightarrow> acc
                  | Some (requestCount, parsedModelName, isTotallingItem) \<Rightarrow>
                      if requestCount = 0 then acc
                      else
                        (let costPerRequestCents = of_int c / of_nat requestCount;
                             totalDollars' = of_int c / 100;
                             paddedRequestCount = padStart (natToString requestCount) paddingWidth (CHR ''0'');
                             costPerRequestDollarsFormatted =
                               padStart (toFixed (costPerRequestCents / 100) 3) costPaddingWidth (CHR ''0'');
                             tilde = (if isTotallingItem then ''~'' else ''&nbsp;&nbsp;'');
                             itemUnit = t' ''api.requestUnit'';
                             calculationString =
                               ''**'' @ paddedRequestCount @ ''** '' @ itemUnit @ '' @ **$''
                               @ costPerRequestDollarsFormatted @ tilde @ ''**''
                         in (usageItems @
                               [\<lparr>calculation = calculationString,
                                 totalDollars = ''$'' @ toFixed totalDollars' 2,
                                 item_description = description item,
                                 modelNameForTooltip = Some parsedModelName,
                                 isDiscounted = Some (includesStr (toLowerCase (description item)) ''discounted'')\<rparr>],
                             midMonthPayment')))))"

text \<open>What \<open>fetchMonthData\<close> makes of the invoice it fetched.\<close>

definition monthDataOf :: "(string \<Rightarrow> string) \<Rightarrow> MonthlyInvoiceApiResponse \<Rightarrow> MonthData" where
  "monthDataOf t' invoiceData =
     (let its = (case invoice_items invoiceData of Some xs \<Rightarrow> xs | None \<Rightarrow> []);
          (usageItems, midMonthPayment') =
            (if length its > 0
             then (case calculatePaddingWidths its of (paddingWidth, costPaddingWidth) \<Rightarrow>
                     foldl (monthStep t' paddingWidth costPaddingWidth) ([], 0) its)
             else ([], 0))
      in \<lparr>items = usageItems,
          hasUnpaidMidMonthInvoice =
            (case invoice_hasUnpaidMidMonthInvoice invoiceData of Some b \<Rightarrow> b | None \<Rightarrow> False),
          midMonthPayment = midMonthPayment'\<rparr>)"

text \<open>\<open>fetchMonthData\<close>: an error of the request is logged and rethrown.\<close>

definition fetchMonthData :: "env \<Rightarrow> world \<Rightarrow> string \<Rightarrow> nat \<Rightarrow> int \<Rightarrow> world \<times> (error + MonthData)" where
  "fetchMonthData env w token month' year' =
     (let answer = monthlyInvoiceApi env token month' year';
          w1 = request w (MonthlyInvoiceApi month' year') answer
      in case answer of
           Inl e \<Rightarrow> (w1, Inl e)
         | Inr invoiceData \<Rightarrow> (w1, Inr (monthDataOf (t env) invoiceData)))"

section \<open>Usage aggregator (services/api.ts)\<close>

definition usageBasedBillingDay :: nat where
  "usageBasedBillingDay = 3"

text \<open>
  The two billing periods \<open>fetchCursorStats\<close> asks for at a given date: (month, year)
  of the current one and of the last one, months counted from 1.
\<close>

definition usageBasedPeriods :: "Date \<Rightarrow> (nat \<times> int) \<times> (nat \<times> int)" where
  "usageBasedPeriods d =
     (let month0 = getMonth d + 1;
          year0 = getFullYear d;
          (usageBasedCurrentMonth, usageBasedCurrentYear) =
            (if getDate d < usageBasedBillingDay
             then (let m = (if month0 = 1 then 12 else month0 - 1)
                   in (m, if m = 12 then year0 - 1 else year0))
             else (month0, year0));
          usageBasedLastMonth = (if usageBasedCurrentMonth = 1 then 12 else usageBasedCurrentMonth - 1);
          usageBasedLastYear =
            (if usageBasedCurrentMonth = 1 then usageBasedCurrentYear - 1 else usageBasedCurrentYear)
      in ((usageBasedCurrentMonth, usageBasedCurrentYear), (usageBasedLastMonth, usageBasedLastYear)))"

text \<open>
  The first part of \<open>fetchCursorStats\<close>, which determines \<open>premiumRequests\<close>: from the
  team usage for a team member, else from the individual usage endpoint.
\<close>

definition premiumRequestsOf :: "env \<Rightarrow> world \<Rightarrow> string \<Rightarrow> string \<Rightarrow> TeamMembership \<Rightarrow> world \<times> (error + PremiumRequests)" where
  "premiumRequestsOf env w1 token userId' teamInfo =
     (if isTeamMember teamInfo \<and> truthyNat (teamId teamInfo) \<and> truthyNat (userId teamInfo)
      then (let (w2, got) = getTeamUsage env w1 token (the (teamId teamInfo)) in
            case got of
              Inl e \<Rightarrow> (w2, Inl e)
            | Inr teamUsage \<Rightarrow>
                (case extractUserUsage teamUsage (the (userId teamInfo)) of
                   Inl e \<Rightarrow> (w2, Inl e)
                 | Inr userUsage \<Rightarrow>
                     (w2, Inr \<lparr>current = user_numRequests userUsage,
                               limit = user_maxRequestUsage userUsage,
                               premium_startOfMonth = startOfMonth teamInfo\<rparr>)))
      else (let answer = usageApi env token userId';
                w2 = request w1 UsageApi answer
            in case answer of
                 Inl e \<Rightarrow> (w2, Inl e)
               | Inr premiumResponse \<Rightarrow>
                   (w2, Inr \<lparr>current = numRequests (gpt4 premiumResponse),
                             limit = maxRequestUsage (gpt4 premiumResponse),
                             premium_startOfMonth = usage_startOfMonth premiumResponse\<rparr>)))"

text \<open>
  \<open>fetchCursorStats\<close>. Every \<^verbatim>\<open>await\<close> is inside one \<^verbatim>\<open>try\<close> whose handler logs and
  rethrows: the first failing step ends the function with its error.
\<close>

definition fetchCursorStats :: "env \<Rightarrow> world \<Rightarrow> string \<Rightarrow> world \<times> (error + CursorStats)" where
  "fetchCursorStats env w token =
     (let userId' = hd (split token ''%3A%3A'');
          (w1, checked) = checkTeamMembership env w token
      in
      case checked of
        Inl e \<Rightarrow> (w1, Inl e)
      | Inr teamInfo \<Rightarrow>
          (let (w2, premium) = premiumRequestsOf env w1 token userId' teamInfo in
           case premium of
             Inl e \<Rightarrow> (w2, Inl e)
           | Inr premiumRequests' \<Rightarrow>
               (case usageBasedPeriods (currentDate env) of
                  ((usageBasedCurrentMonth, usageBasedCurrentYear),
                   (usageBasedLastMonth, usageBasedLastYear)) \<Rightarrow>
                    (let (w3, currentFetched) =
                           fetchMonthData env w2 token usageBasedCurrentMonth usageBasedCurrentYear
                     in
                     case currentFetched of
                       Inl e \<Rightarrow> (w3, Inl e)
                     | Inr currentMonthData \<Rightarrow>
                         (let (w4, lastFetched) =
                                fetchMonthData env w3 token usageBasedLastMonth usageBasedLastYear
                          in
                          case lastFetched of
                            Inl e \<Rightarrow> (w4, Inl e)
                          | Inr lastMonthData \<Rightarrow>
                              (w4, Inr \<lparr>currentMonth = \<lparr>month = usageBasedCurrentMonth,
                                                        year = usageBasedCurrentYear,
                                                        usageBasedPricing = currentMonthData\<rparr>,
                                        lastMonth = \<lparr>month = usageBasedLastMonth,
                                                     year = usageBasedLastYear,
                                                     usageBasedPricing = lastMonthData\<rparr>,
                                        premiumRequests = premiumRequests'\<rparr>))))))"

section \<open>Status computation (utils/updateStats.ts)\<close>

text \<open>Division by zero does not throw, it yields an infinity, or NaN for \<open>0 / 0\<close>.\<close>

definition divide_js :: "rat \<Rightarrow> rat \<Rightarrow> jsnum" where
  "divide_js a b =
     (if b \<noteq> 0 then Num (a / b)
      else if a = 0 then NaN
      else if a > 0 then PosInfinity
      else NegInfinity)"

fun times_js :: "jsnum \<Rightarrow> rat \<Rightarrow> jsnum" where
  "times_js (Num a) b = Num (a * b)"
| "times_js PosInfinity b = (if b > 0 then PosInfinity else if b < 0 then NegInfinity else NaN)"
| "times_js NegInfinity b = (if b > 0 then NegInfinity else if b < 0 then PosInfinity else NaN)"
| "times_js NaN b = NaN"

text \<open>\<^verbatim>\<open>Math.round\<close>: the nearest integer, a half rounded up.\<close>

fun round_js :: "jsnum \<Rightarrow> jsnum" where
  "round_js (Num a) = Num (of_int \<lfloor>a + 1 / 2\<rfloor>)"
| "round_js PosInfinity = PosInfinity"
| "round_js NegInfinity = NegInfinity"
| "round_js NaN = NaN"

fun isFinite :: "jsnum \<Rightarrow> bool" where
  "isFinite (Num a) = True"
| "isFinite PosInfinity = False"
| "isFinite NegInfinity = False"
| "isFinite NaN = False"

text \<open>
  \<^verbatim>\<open>Math.round((stats.premiumRequests.current / stats.premiumRequests.limit) * 100)\<close>
\<close>

definition premiumPercent :: "CursorStats \<Rightarrow> jsnum" where
  "premiumPercent stats =
     round_js (times_js (divide_js (current (premiumRequests stats)) (limit (premiumRequests stats))) 100)"

text \<open>Use current month if it has data, otherwise fall back to last month.\<close>

definition activeMonthData :: "CursorStats \<Rightarrow> MonthStats" where
  "activeMonthData stats =
     (if length (items (usageBasedPricing (currentMonth stats))) > 0
      then currentMonth stats else lastMonth stats)"





section \<open>Notions used to state the properties\<close>

text \<open>
  A usage item is the item of a mid-month payment when its description has the marker;
  this is the test by which \<open>updateStats\<close> recognizes these items.
\<close>

definition isMidMonthItem :: "UsageItem \<Rightarrow> bool" where
  "isMidMonthItem it = includesStr (item_description it) ''Mid-month usage paid''"

text \<open>
  The amounts, in dollars, of the mid-month-payment lines of an invoice, in order: the
  lines whose description has the marker and whose \<open>cents\<close> is present.
\<close>

fun midMonthCredits :: "InvoiceItem list \<Rightarrow> rat list" where
  "midMonthCredits [] = []"
| "midMonthCredits (item # its) =
     (if includesStr (description item) ''Mid-month usage paid''
      then (case cents item of Some c \<Rightarrow> [\<bar>of_int c\<bar> / 100] | None \<Rightarrow> [])
      else []) @ midMonthCredits its"

text \<open>The running sums of a list of amounts, from a starting total.\<close>

fun runningTotals :: "rat \<Rightarrow> rat list \<Rightarrow> rat list" where
  "runningTotals acc [] = []"
| "runningTotals acc (x # xs) = (acc + x) # runningTotals (acc + x) xs"

text \<open>
  The model labels of the usage items that the loop body of \<open>fetchMonthData\<close> appends
  for one line: none when the line is skipped.
\<close>

definition newLabels :: "(string \<Rightarrow> string) \<Rightarrow> nat \<Rightarrow> nat \<Rightarrow> UsageItem list \<Rightarrow> rat \<Rightarrow> InvoiceItem \<Rightarrow> string option list" where
  "newLabels t' paddingWidth costPaddingWidth usageItems midMonthPayment' item =
     drop (length usageItems)
          (map modelNameForTooltip
               (fst (monthStep t' paddingWidth costPaddingWidth (usageItems, midMonthPayment') item)))"

text \<open>The lines of an invoice; a response without \<open>items\<close> has none.\<close>

definition invoiceLines :: "MonthlyInvoiceApiResponse \<Rightarrow> InvoiceItem list" where
  "invoiceLines invoiceData = (case invoice_items invoiceData of Some xs \<Rightarrow> xs | None \<Rightarrow> [])"

text \<open>The number of a month on the time line, months counted through the years.\<close>

definition monthIndex :: "nat \<times> int \<Rightarrow> int" where
  "monthIndex p = 12 * snd p + int (fst p) - 1"


section \<open>Effects of one run\<close>

text \<open>The effects a run from \<open>w\<close> to \<open>w'\<close> appended to the log.\<close>

definition newEffects :: "world \<Rightarrow> world \<Rightarrow> effect list" where
  "newEffects w w' = drop (length (effects w)) (effects w')"

text \<open>The requests for a monthly invoice among the effects.\<close>

definition isInvoiceRequest :: "effect \<Rightarrow> bool" where
  "isInvoiceRequest e = (case e of Request (MonthlyInvoiceApi m y) ok \<Rightarrow> True | _ \<Rightarrow> False)"

section \<open>Concrete worlds for the examples\<close>

definition emptyWorld :: world where
  "emptyWorld = \<lparr>currencyCacheFile = Missing, userCacheFile = Missing, effects = []\<rparr>"

text \<open>Localized strings that show the key itself.\<close>

definition keyText :: "string \<Rightarrow> string" where
  "keyText key = key"

text \<open>A description with an extra-fast-premium phrase that names a known model.\<close>

definition extraFastKnownModel :: string where
  "extraFastKnownModel = ''10 extra fast premium requests (gpt-4.5-preview)''"

text \<open>Descriptions of a tool-call line, of an extra-fast line and of an unknown model.\<close>

definition toolCallsLine :: string where
  "toolCallsLine = ''5 tool calls * 5 cents per call''"

definition extraFastLine :: string where
  "extraFastLine = ''7 extra fast premium requests (Haiku)''"

definition unknownModelLine :: string where
  "unknownModelLine = ''3 mystery-model requests''"

text \<open>
  More descriptions: a token-based line, a line with the count 0, a line whose count is
  not followed by a space, and a line without a count; and the invoice line of a
  description with an amount in cents.
\<close>

definition tokenLine :: string where
  "tokenLine = ''42 token-based usage calls to gpt-5-extreme, totalling: $4.20''"

definition zeroCountLine :: string where
  "zeroCountLine = ''0 requests''"

definition countOnlyLine :: string where
  "countOnlyLine = ''5tool calls''"

definition noCountLine :: string where
  "noCountLine = ''no count''"

definition lineItem :: "string \<Rightarrow> int \<Rightarrow> InvoiceItem" where
  "lineItem d c = \<lparr>description = d, cents = Some c\<rparr>"

text \<open>An invoice with two mid-month payments, of 5 and of 3 dollars.\<close>

definition twoCredits :: MonthlyInvoiceApiResponse where
  "twoCredits =
     \<lparr>invoice_items = Some [\<lparr>description = ''Mid-month usage paid'', cents = Some (- 500)\<rparr>,
                            \<lparr>description = ''Mid-month usage paid'', cents = Some (- 300)\<rparr>],
      invoice_hasUnpaidMidMonthInvoice = Some False\<rparr>"

definition emptyInvoice :: MonthlyInvoiceApiResponse where
  "emptyInvoice = \<lparr>invoice_items = Some [], invoice_hasUnpaidMidMonthInvoice = Some False\<rparr>"

text \<open>
  An environment in which every request is answered, on the 2nd of January 2025, for a
  user without a team.
\<close>

definition onlineEnv :: env where
  "onlineEnv =
     \<lparr>now = 1000,
      currentDate = \<lparr>getFullYear = 2025, getMonth = 0, getDate = 2\<rparr>,
      writeSucceeds = True,
      currencyApi = Inr \<lparr>date = ''2025-01-02'', usd = Some (map_of [(''eur'', 9 / 10)])\<rparr>,
      usageApi = (\<lambda>token user. Inr \<lparr>gpt4 = \<lparr>numRequests = 5, maxRequestUsage = 500\<rparr>,
                                      usage_startOfMonth = ''2024-12-15T00:00:00.000Z''\<rparr>),
      teamsApi = (\<lambda>token. Inr \<lparr>teams = Some []\<rparr>),
      teamApi = (\<lambda>token teamId. Inl (Error ''Not a member'')),
      teamUsageApi = (\<lambda>token teamId. Inl (Error ''Not a member'')),
      hardLimitApi = (\<lambda>token. Inr (Some \<lparr>hardLimit = Some 20, noUsageBasedAllowed = Some False\<rparr>)),
      monthlyInvoiceApi = (\<lambda>token month year. Inr (if month = 12 then twoCredits else emptyInvoice)),
      jwtSubOf = (\<lambda>jwt. Some ''auth0|user''),
      t = keyText\<rparr>"

text \<open>The same environment on the 15th of June 2025.\<close>

definition juneEnv :: env where
  "juneEnv = onlineEnv\<lparr>currentDate := \<lparr>getFullYear = 2025, getMonth = 5, getDate = 15\<rparr>\<rparr>"

text \<open>An environment in which every request fails.\<close>

definition offlineEnv :: env where
  "offlineEnv =
     \<lparr>now = 1000,
      currentDate = \<lparr>getFullYear = 2025, getMonth = 0, getDate = 2\<rparr>,
      writeSucceeds = True,
      currencyApi = Inl (Error ''Network Error''),
      usageApi = (\<lambda>token user. Inl (Error ''Network Error'')),
      teamsApi = (\<lambda>token. Inl (Error ''Network Error'')),
      teamApi = (\<lambda>token teamId. Inl (Error ''Network Error'')),
      teamUsageApi = (\<lambda>token teamId. Inl (Error ''Network Error'')),
      hardLimitApi = (\<lambda>token. Inl (Error ''Network Error'')),
      monthlyInvoiceApi = (\<lambda>token month year. Inl (Error ''Network Error'')),
      jwtSubOf = (\<lambda>jwt. None),
      t = keyText\<rparr>"

text \<open>Months with given items, and a snapshot whose premium quota has the limit 0.\<close>

definition monthOf :: "nat \<Rightarrow> int \<Rightarrow> UsageItem list \<Rightarrow> MonthStats" where
  "monthOf m y its =
     \<lparr>month = m, year = y,
      usageBasedPricing = \<lparr>items = its, hasUnpaidMidMonthInvoice = False, midMonthPayment = 0\<rparr>\<rparr>"

definition sampleItem :: UsageItem where
  "sampleItem =
     \<lparr>calculation = ''**42** req @ **$0.100~**'',
      totalDollars = ''$4.20'',
      item_description = ''42 token-based usage calls to gpt-5-extreme, totalling: $4.20'',
      modelNameForTooltip = Some ''gpt-5-extreme'',
      isDiscounted = Some False\<rparr>"

definition statsOf :: "UsageItem list \<Rightarrow> UsageItem list \<Rightarrow> rat \<Rightarrow> CursorStats" where
  "statsOf currentItems lastItems premiumLimit =
     \<lparr>currentMonth = monthOf 6 2025 currentItems,
      lastMonth = monthOf 5 2025 lastItems,
      premiumRequests = \<lparr>current = 5, limit = premiumLimit, premium_startOfMonth = ''2025-06-01T00:00:00.000Z''\<rparr>\<rparr>"

definition zeroLimitStats :: CursorStats where
  "zeroLimitStats = statsOf [] [] 0"

section \<open>Properties of the currency converter\<close>

lemma convertAmount_returns:
  "\<exists>w' r. convertAmount env w amount targetCurrency = (w', Inr r)"
  by (auto simp: convertAmount_def split: prod.splits sum.splits option.splits property.splits)

text \<open>
  Claim C7. For every amount \<open>x\<close>, \<open>convertAmount x "USD"\<close> returns \<open>x\<close> unchanged with
  the symbol \<open>$\<close>; the state is returned as it was, so the cache file is neither read nor
  written and no request is sent (the log of effects does not grow).
\<close>

theorem convertAmount_USD_identity:
  "convertAmount env w x ''USD'' = (w, Inr \<lparr>value = Num x, symbol = Str ''$''\<rparr>)"
  by (simp add: convertAmount_def)

theorem convertAmount_USD_identity_witness:
  "convertAmount offlineEnv emptyWorld 5 ''USD''
     = (emptyWorld, Inr \<lparr>value = Num 5, symbol = Str ''$''\<rparr>)
   \<and> effects (fst (convertAmount offlineEnv emptyWorld 5 ''USD'')) = []"
  using convertAmount_USD_identity [of offlineEnv emptyWorld 5]
  by (simp add: emptyWorld_def)

text \<open>
  \<open>convertAmount\<close> never raises. For a target currency other than USD it returns the
  original amount with the symbol \<open>$\<close> when fetching the exchange rates fails, and when
  the rates were obtained and reading the target currency's property of the rate object
  gives \<^verbatim>\<open>undefined\<close>.
\<close>

lemma convertAmount_fallback:
  "(\<exists>r. snd (convertAmount env w x targetCurrency) = Inr r) \<and>
   (targetCurrency \<noteq> ''USD'' \<and>
    ((\<exists>e. snd (fetchExchangeRates env w) = Inl e) \<or>
     (\<exists>rs m. snd (fetchExchangeRates env w) = Inr rs \<and> usd rs = Some m
              \<and> getProperty m (toLowerCase targetCurrency) = Undefined))
    \<longrightarrow> snd (convertAmount env w x targetCurrency) = Inr \<lparr>value = Num x, symbol = Str ''$''\<rparr>)"
proof (intro conjI impI)
  show "\<exists>r. snd (convertAmount env w x targetCurrency) = Inr r"
    using convertAmount_returns [of env w x targetCurrency] by auto
next
  assume h: "targetCurrency \<noteq> ''USD'' \<and>
    ((\<exists>e. snd (fetchExchangeRates env w) = Inl e) \<or>
     (\<exists>rs m. snd (fetchExchangeRates env w) = Inr rs \<and> usd rs = Some m
              \<and> getProperty m (toLowerCase targetCurrency) = Undefined))"
  obtain w1 fetched where f: "fetchExchangeRates env w = (w1, fetched)"
    by (cases "fetchExchangeRates env w")
  from h f show "snd (convertAmount env w x targetCurrency)
                   = Inr \<lparr>value = Num x, symbol = Str ''$''\<rparr>"
    by (auto simp: convertAmount_def)
qed

lemma convertAmount_offline:
  "snd (convertAmount offlineEnv emptyWorld 5 ''EUR'') = Inr \<lparr>value = Num 5, symbol = Str ''$''\<rparr>"
  by code_simp

lemma convertAmount_absent:
  "snd (convertAmount onlineEnv emptyWorld 5 ''GBP'') = Inr \<lparr>value = Num 5, symbol = Str ''$''\<rparr>"
  by code_simp

text \<open>
  Claim C6, evaluated on the code. The rates are fetched and the rate mapping has the
  single entry \<open>eur\<close>. For the target currency \<open>constructor\<close>, which is absent from the
  mapping, the property read finds the constructor that the rate object inherits: the
  check for a missing rate does not fire, and the result is NaN with a symbol that is
  not a string, not the original amount with the symbol \<open>$\<close>.
\<close>

theorem convertAmount_inherited_rate:
  "''constructor'' \<noteq> ''USD''
   \<and> snd (fetchExchangeRates onlineEnv emptyWorld)
       = Inr \<lparr>date = ''2025-01-02'', usd = Some (map_of [(''eur'', 9 / 10)])\<rparr>
   \<and> map_of [(''eur'', 9 / 10 :: rat)] (toLowerCase ''constructor'') = None
   \<and> snd (convertAmount onlineEnv emptyWorld 5 ''constructor'')
       = Inr \<lparr>value = NaN, symbol = InheritedValue ''constructor''\<rparr>
   \<and> snd (convertAmount onlineEnv emptyWorld 5 ''constructor'')
       \<noteq> Inr \<lparr>value = Num 5, symbol = Str ''$''\<rparr>"
proof -
  have f: "snd (fetchExchangeRates onlineEnv emptyWorld)
             = Inr \<lparr>date = ''2025-01-02'', usd = Some (map_of [(''eur'', 9 / 10)])\<rparr>"
    by (simp add: fetchExchangeRates_def getCachedRates_def saveCurrencyCache_def request_def
                  onlineEnv_def emptyWorld_def Let_def)
  have absent: "map_of [(''eur'', 9 / 10 :: rat)] (toLowerCase ''constructor'') = None"
    by (simp add: toLowerCase_def toLowerChar_def)
  have r: "snd (convertAmount onlineEnv emptyWorld 5 ''constructor'')
             = Inr \<lparr>value = NaN, symbol = InheritedValue ''constructor''\<rparr>"
    by code_simp
  from f absent r show ?thesis by simp
qed

section \<open>Properties of the team membership resolver\<close>

text \<open>
  Claim C8. In every invocation of \<open>checkTeamMembership\<close> in which one of the requests
  it sent failed (individual usage, team roster or team member list), the invocation ends
  with an error, which is the error of one of these endpoints; the membership cache file
  is left as it was, and the invocation performed no cache write.
\<close>

theorem checkTeamMembership_failure_atomic:
  assumes "checkTeamMembership env w token = (w', r)"
      and "Request ep False \<in> set (newEffects w w')"
  shows "(\<exists>e. r = Inl e \<and>
              (usageApi env token (hd (split token ''%3A%3A'')) = Inl e
               \<or> teamsApi env token = Inl e
               \<or> (\<exists>tid. teamApi env token tid = Inl e)))
         \<and> userCacheFile w' = userCacheFile w
         \<and> CacheWrite \<notin> set (newEffects w w')"
  using assms
  unfolding checkTeamMembership_def loadUserCache_def request_def saveUserCache_def
    newEffects_def Let_def
  by (auto split: sum.splits option.splits prod.splits if_splits stored.splits)

theorem checkTeamMembership_failure_atomic_witness:
  "checkTeamMembership offlineEnv emptyWorld ''user%3A%3Ajwt''
     = (emptyWorld\<lparr>effects := [CacheRead, Request UsageApi False]\<rparr>, Inl (Error ''Network Error''))
   \<and> Request UsageApi False
       \<in> set (newEffects emptyWorld (emptyWorld\<lparr>effects := [CacheRead, Request UsageApi False]\<rparr>))
   \<and> userCacheFile (emptyWorld\<lparr>effects := [CacheRead, Request UsageApi False]\<rparr>)
       = userCacheFile emptyWorld"
proof -
  let ?w' = "emptyWorld\<lparr>effects := [CacheRead, Request UsageApi False]\<rparr>"
  have run: "checkTeamMembership offlineEnv emptyWorld ''user%3A%3Ajwt''
               = (?w', Inl (Error ''Network Error''))"
    by (simp add: checkTeamMembership_def loadUserCache_def request_def offlineEnv_def
                  emptyWorld_def Let_def)
  have failed: "Request UsageApi False \<in> set (newEffects emptyWorld ?w')"
    by (simp add: newEffects_def emptyWorld_def)
  from checkTeamMembership_failure_atomic [OF run failed] run failed
  show ?thesis by blast
qed

section \<open>Properties of the usage limit lookup\<close>

text \<open>
  Claim C10. For every token, \<open>checkUsageBasedStatus\<close> returns a value and never an
  error; when the request to the usage-limit endpoint fails, the value is
  \<open>isEnabled = false\<close> with no limit.
\<close>

theorem checkUsageBasedStatus_never_throws:
  "(\<exists>st. snd (checkUsageBasedStatus env w token) = Inr st) \<and>
   (\<forall>e. hardLimitApi env token = Inl e \<longrightarrow>
        snd (checkUsageBasedStatus env w token)
          = Inr \<lparr>isEnabled = False, status_limit = None\<rparr>)"
  by (auto simp: checkUsageBasedStatus_def getCurrentUsageLimit_def Let_def
           split: sum.splits option.splits)

theorem checkUsageBasedStatus_never_throws_witness:
  "hardLimitApi offlineEnv ''tok'' = Inl (Error ''Network Error'') \<and>
   snd (checkUsageBasedStatus offlineEnv emptyWorld ''tok'')
     = Inr \<lparr>isEnabled = False, status_limit = None\<rparr>"
proof -
  have h: "hardLimitApi offlineEnv ''tok'' = Inl (Error ''Network Error'')"
    by (simp add: offlineEnv_def)
  from checkUsageBasedStatus_never_throws [of offlineEnv emptyWorld "''tok''"] h
  show ?thesis by blast
qed

section \<open>Properties of the status computation\<close>

text \<open>
  Claim C5. When the active-period month has no usage item and the preceding month has
  at least one, the month selected for display is the preceding one; when the
  active-period month has at least one item, it is the one selected.
\<close>

theorem activeMonthData_selection:
  "(length (items (usageBasedPricing (currentMonth stats))) = 0 \<and>
    length (items (usageBasedPricing (lastMonth stats))) > 0
      \<longrightarrow> activeMonthData stats = lastMonth stats) \<and>
   (length (items (usageBasedPricing (currentMonth stats))) \<ge> 1
      \<longrightarrow> activeMonthData stats = currentMonth stats)"
  by (simp add: activeMonthData_def)

theorem activeMonthData_selection_witness:
  "length (items (usageBasedPricing (currentMonth (statsOf [] [sampleItem] 500)))) = 0
   \<and> length (items (usageBasedPricing (lastMonth (statsOf [] [sampleItem] 500)))) > 0
   \<and> activeMonthData (statsOf [] [sampleItem] 500) = lastMonth (statsOf [] [sampleItem] 500)
   \<and> length (items (usageBasedPricing (currentMonth (statsOf [sampleItem] [] 500)))) \<ge> 1
   \<and> activeMonthData (statsOf [sampleItem] [] 500) = currentMonth (statsOf [sampleItem] [] 500)"
proof -
  have a: "length (items (usageBasedPricing (currentMonth (statsOf [] [sampleItem] 500)))) = 0"
    by (simp add: statsOf_def monthOf_def)
  have b: "length (items (usageBasedPricing (lastMonth (statsOf [] [sampleItem] 500)))) > 0"
    by (simp add: statsOf_def monthOf_def)
  have c: "length (items (usageBasedPricing (currentMonth (statsOf [sampleItem] [] 500)))) \<ge> 1"
    by (simp add: statsOf_def monthOf_def)
  from activeMonthData_selection [of "statsOf [] [sampleItem] 500"]
       activeMonthData_selection [of "statsOf [sampleItem] [] 500"] a b c
  show ?thesis by blast
qed















text \<open>
  Claim C3, evaluated on the code. The premium percentage is computed by an unguarded
  division: on a snapshot whose premium limit is 0 the result is not a finite number.
\<close>

theorem premiumPercent_zero_limit:
  "limit (premiumRequests zeroLimitStats) = 0 \<and>
   premiumPercent zeroLimitStats = PosInfinity \<and>
   \<not> isFinite (premiumPercent zeroLimitStats)"
  by (simp add: premiumPercent_def divide_js_def zeroLimitStats_def statsOf_def)

lemma premiumPercent_finite_iff:
  "isFinite (premiumPercent stats) \<longleftrightarrow> limit (premiumRequests stats) \<noteq> 0"
  by (simp add: premiumPercent_def divide_js_def)

section \<open>Properties of the monthly usage builder\<close>

lemma monthStep_credit:
  assumes "includesStr (description item) ''Mid-month usage paid''" and "cents item = Some c"
  shows "\<exists>it. monthStep t' pw cpw (us, m) item = (us @ [it], m + \<bar>of_int c\<bar> / 100)
              \<and> isMidMonthItem it
              \<and> totalDollars it = ''-$'' @ toFixed (m + \<bar>of_int c\<bar> / 100) 2"
  using assms
  by (simp add: monthStep_def processMidMonthPayment_def isMidMonthItem_def Let_def)

lemma monthStep_other:
  assumes "\<not> (includesStr (description item) ''Mid-month usage paid'' \<and> cents item \<noteq> None)"
  shows "\<exists>us'. monthStep t' pw cpw (us, m) item = (us', m)
               \<and> filter isMidMonthItem us' = filter isMidMonthItem us"
  using assms
  by (auto simp: monthStep_def processMidMonthPayment_def isMidMonthItem_def Let_def
           split: option.splits prod.splits)

lemma monthStep_fold:
  "\<exists>us'. foldl (monthStep t' pw cpw) (us, m) its = (us', m + sum_list (midMonthCredits its))
         \<and> map totalDollars (filter isMidMonthItem us')
             = map totalDollars (filter isMidMonthItem us)
               @ map (\<lambda>s. ''-$'' @ toFixed s 2) (runningTotals m (midMonthCredits its))"
proof (induction its arbitrary: us m)
  case Nil
  show ?case by simp
next
  case (Cons item its)
  show ?case
  proof (cases "includesStr (description item) ''Mid-month usage paid'' \<and> cents item \<noteq> None")
    case True
    then obtain c where c: "cents item = Some c" by auto
    from monthStep_credit [OF conjunct1 [OF True] c, of t' pw cpw us m]
    obtain it where st: "monthStep t' pw cpw (us, m) item = (us @ [it], m + \<bar>of_int c\<bar> / 100)"
      and mid: "isMidMonthItem it"
      and td: "totalDollars it = ''-$'' @ toFixed (m + \<bar>of_int c\<bar> / 100) 2"
      by blast
    from Cons.IH [of "us @ [it]" "m + \<bar>of_int c\<bar> / 100"]
    obtain us' where
      f: "foldl (monthStep t' pw cpw) (us @ [it], m + \<bar>of_int c\<bar> / 100) its
            = (us', m + \<bar>of_int c\<bar> / 100 + sum_list (midMonthCredits its))"
      and g: "map totalDollars (filter isMidMonthItem us')
             = map totalDollars (filter isMidMonthItem (us @ [it]))
               @ map (\<lambda>s. ''-$'' @ toFixed s 2)
                     (runningTotals (m + \<bar>of_int c\<bar> / 100) (midMonthCredits its))"
      by blast
    show ?thesis
      using True c st mid td f g by (simp add: add.assoc)
  next
    case False
    from monthStep_other [OF False, of t' pw cpw us m]
    obtain us1 where st: "monthStep t' pw cpw (us, m) item = (us1, m)"
      and same: "filter isMidMonthItem us1 = filter isMidMonthItem us"
      by blast
    from Cons.IH [of us1 m]
    obtain us' where
      f: "foldl (monthStep t' pw cpw) (us1, m) its = (us', m + sum_list (midMonthCredits its))"
      and g: "map totalDollars (filter isMidMonthItem us')
             = map totalDollars (filter isMidMonthItem us1)
               @ map (\<lambda>s. ''-$'' @ toFixed s 2) (runningTotals m (midMonthCredits its))"
      by blast
    have none: "midMonthCredits (item # its) = midMonthCredits its"
      using False by (auto split: option.splits)
    show ?thesis
      using st same f g none by simp
  qed
qed

lemma length_runningTotals: "length (runningTotals acc xs) = length xs"
  by (induction xs arbitrary: acc) auto

text \<open>
  Claim C1, as the code has it. For every month invoice, the built month record has one
  payment item for each mid-month-payment line (description with the marker, \<open>cents\<close>
  present), in the order of the lines; the item of the k-th such line shows the running
  sum of the absolute credit amounts of the first k of them, and \<open>midMonthPayment\<close> is
  the sum of all of them.
\<close>

theorem midMonth_items_running_totals:
  "map totalDollars (filter isMidMonthItem (items (monthDataOf t' invoiceData)))
     = map (\<lambda>s. ''-$'' @ toFixed s 2) (runningTotals 0 (midMonthCredits (invoiceLines invoiceData)))
   \<and> length (filter isMidMonthItem (items (monthDataOf t' invoiceData)))
     = length (midMonthCredits (invoiceLines invoiceData))
   \<and> midMonthPayment (monthDataOf t' invoiceData) = sum_list (midMonthCredits (invoiceLines invoiceData))"
proof -
  let ?its = "invoiceLines invoiceData"
  obtain pw cpw where pads: "calculatePaddingWidths ?its = (pw, cpw)"
    by (cases "calculatePaddingWidths ?its")
  from monthStep_fold [of t' pw cpw "[]" 0 ?its]
  obtain us' where
    f: "foldl (monthStep t' pw cpw) ([], 0) ?its = (us', sum_list (midMonthCredits ?its))"
    and g: "map totalDollars (filter isMidMonthItem us')
             = map (\<lambda>s. ''-$'' @ toFixed s 2) (runningTotals 0 (midMonthCredits ?its))"
    by auto
  have md: "items (monthDataOf t' invoiceData) = us'
            \<and> midMonthPayment (monthDataOf t' invoiceData) = sum_list (midMonthCredits ?its)"
  proof (cases "?its = []")
    case True
    with f show ?thesis
      by (simp add: monthDataOf_def invoiceLines_def Let_def)
  next
    case False
    with f pads show ?thesis
      by (simp add: monthDataOf_def invoiceLines_def Let_def)
  qed
  have len: "length (filter isMidMonthItem us') = length (midMonthCredits ?its)"
    using arg_cong [OF g, of length] by (simp add: length_runningTotals)
  show ?thesis using md g len by simp
qed

text \<open>
  The month built from two payment lines, of \<open>-500\<close> and \<open>-300\<close> cents, has two payment
  items, showing 5.00 and 8.00 dollars, and not a single one.
\<close>

theorem single_payment_item_counterexample:
  "midMonthCredits (invoiceLines twoCredits) = [5, 3]
   \<and> length (filter isMidMonthItem (items (monthDataOf keyText twoCredits))) = 2
   \<and> length (filter isMidMonthItem (items (monthDataOf keyText twoCredits))) \<noteq> 1
   \<and> map totalDollars (filter isMidMonthItem (items (monthDataOf keyText twoCredits)))
       = [''-$5.00'', ''-$8.00'']
   \<and> midMonthPayment (monthDataOf keyText twoCredits) = 8"
  by code_simp

theorem midMonth_items_running_totals_witness:
  "map totalDollars (filter isMidMonthItem (items (monthDataOf keyText twoCredits)))
     = [''-$5.00'', ''-$8.00'']
   \<and> length (filter isMidMonthItem (items (monthDataOf keyText twoCredits))) = 2
   \<and> midMonthPayment (monthDataOf keyText twoCredits) = 8"
proof -
  have credits: "midMonthCredits (invoiceLines twoCredits) = [5, 3]"
    by code_simp
  have shown: "map (\<lambda>s. ''-$'' @ toFixed s 2) (runningTotals 0 [5, 3]) = [''-$5.00'', ''-$8.00'']"
    by code_simp
  from midMonth_items_running_totals [of keyText twoCredits] credits shown
  show ?thesis by simp
qed

section \<open>Properties of the regular expression matcher\<close>

text \<open>Matching never gives back input.\<close>

lemma step_rest_less:
  "st' \<in> set (step st p) \<Longrightarrow> length (rest st') < length (rest st)"
  by (cases "rest st") (auto simp: step_def split: if_splits)

lemma repeat_rest_le:
  assumes body: "\<And>s s'. s' \<in> set (body s) \<Longrightarrow> length (rest s') \<le> length (rest s)"
  shows "st' \<in> set (repeat body g mn mx fuel st) \<Longrightarrow> length (rest st') \<le> length (rest st)"
proof (induction fuel arbitrary: mn mx st)
  case 0
  then show ?case by (auto split: if_splits)
next
  case (Suc fuel)
  from Suc.prems consider "st' = st"
    | s where "s \<in> set (body st)"
        "st' \<in> set (repeat body g (mn - 1) (map_option (\<lambda>m. m - 1) mx) fuel s)"
    by (auto simp: Let_def split: if_splits)
  then show ?case
  proof cases
    case 1
    then show ?thesis by simp
  next
    case 2
    from Suc.IH [OF 2(2)] body [OF 2(1)] show ?thesis by simp
  qed
qed

lemma rmatch_rest_le:
  "st' \<in> set (rmatch ic r st) \<Longrightarrow> length (rest st') \<le> length (rest st)"
proof (induction r arbitrary: st st')
  case (Seq r1 r2)
  from Seq.prems obtain s where "s \<in> set (rmatch ic r1 st)" "st' \<in> set (rmatch ic r2 s)"
    by auto
  with Seq.IH show ?case by fastforce
next
  case (Alt r1 r2)
  then show ?case by auto
next
  case (Greedy mn mx r)
  from Greedy.prems repeat_rest_le [of "\<lambda>s. rmatch ic r s", OF Greedy.IH]
  show ?case by auto
next
  case (Lazy mn mx r)
  from Lazy.prems repeat_rest_le [of "\<lambda>s. rmatch ic r s", OF Lazy.IH]
  show ?case by auto
next
  case (Group n r)
  then show ?case by auto
qed (auto dest!: step_rest_less simp: Let_def split: if_splits)

text \<open>
  The fuel the matcher gives a quantifier is enough: with more fuel the result is the same.
\<close>

lemma concat_map_Nil: "concat (map (\<lambda>x. []) xs) = []"
  by (induction xs) simp_all

lemma repeat_fuel:
  assumes body: "\<And>s s'. s' \<in> set (body s) \<Longrightarrow> length (rest s') \<le> length (rest s)"
  shows "mn + length (rest st) \<le> fuel \<Longrightarrow>
         repeat body g mn mx (Suc fuel) st = repeat body g mn mx fuel st"
proof (induction fuel arbitrary: mn mx st)
  case 0
  then have "mn = 0" "length (rest st) = 0" by auto
  then show ?case by (simp add: Let_def concat_map_Nil)
next
  case (Suc fuel)
  let ?mx' = "map_option (\<lambda>m. m - 1) mx"
  have inner: "(if mn = 0 \<and> length (rest s) \<ge> length (rest st) then []
                else repeat body g (mn - 1) ?mx' (Suc fuel) s)
             = (if mn = 0 \<and> length (rest s) \<ge> length (rest st) then []
                else repeat body g (mn - 1) ?mx' fuel s)"
    if s: "s \<in> set (body st)" for s
  proof (cases "mn = 0 \<and> length (rest s) \<ge> length (rest st)")
    case True
    then show ?thesis by simp
  next
    case False
    from body [OF s] False Suc.prems have "(mn - 1) + length (rest s) \<le> fuel"
      by (cases "mn = 0") auto
    from Suc.IH [OF this] show ?thesis by (simp only:)
  qed
  have maps: "map (\<lambda>s. if mn = 0 \<and> length (rest s) \<ge> length (rest st) then []
                        else repeat body g (mn - 1) ?mx' (Suc fuel) s) (body st)
            = map (\<lambda>s. if mn = 0 \<and> length (rest s) \<ge> length (rest st) then []
                        else repeat body g (mn - 1) ?mx' fuel s) (body st)"
    by (rule map_cong [OF refl]) (rule inner)
  show ?case
    unfolding repeat.simps(2) [of body g mn mx "Suc fuel" st]
              repeat.simps(2) [of body g mn mx fuel st] maps ..
qed

lemma repeat_more_fuel:
  assumes body: "\<And>s s'. s' \<in> set (body s) \<Longrightarrow> length (rest s') \<le> length (rest s)"
  shows "repeat body g mn mx (mn + length (rest st) + k) st
         = repeat body g mn mx (mn + length (rest st)) st"
proof (induction k)
  case 0
  show ?case by simp
next
  case (Suc k)
  have "repeat body g mn mx (Suc (mn + length (rest st) + k)) st
        = repeat body g mn mx (mn + length (rest st) + k) st"
    by (rule repeat_fuel [OF body]) simp_all
  with Suc show ?case by simp
qed

lemma quantifier_fuel_enough:
  "repeat (\<lambda>s. rmatch ic r s) True mn mx (mn + length (rest st) + k) st = rmatch ic (Greedy mn mx r) st"
  "repeat (\<lambda>s. rmatch ic r s) False mn mx (mn + length (rest st) + k) st = rmatch ic (Lazy mn mx r) st"
  using repeat_more_fuel [of "\<lambda>s. rmatch ic r s" True mn mx st k, OF rmatch_rest_le]
        repeat_more_fuel [of "\<lambda>s. rmatch ic r s" False mn mx st k, OF rmatch_rest_le]
  by simp_all

text \<open>The example line of a token-based charge: count 42, model \<open>gpt-5-extreme\<close>.\<close>

lemma parseDescription_example:
  "parseDescription keyText ''42 token-based usage calls to gpt-5-extreme, totalling: $4.20''
     = Some (42, ''gpt-5-extreme'', True)"
  by code_simp

section \<open>Properties of the invoice line classifier\<close>

lemma resolveModel_order:
  "(includesStr desc ''tool calls'' \<longrightarrow> resolveModel t' desc = (t' ''api.toolCalls'', True))
   \<and> (\<not> includesStr desc ''tool calls'' \<and> match_js True genericModelPattern desc = Some m
        \<longrightarrow> resolveModel t' desc = (group m 1, False))
   \<and> (\<not> includesStr desc ''tool calls'' \<and> match_js True genericModelPattern desc = None
        \<and> includesStr desc ''extra fast premium request''
        \<longrightarrow> resolveModel t' desc =
              ((case match_js True extraFastRegex desc of
                  Some x \<Rightarrow> (if group x 1 = [] then t' ''api.fastPremium'' else group x 1)
                | None \<Rightarrow> t' ''api.fastPremium''), False))
   \<and> (\<not> includesStr desc ''tool calls'' \<and> match_js True genericModelPattern desc = None
        \<and> \<not> includesStr desc ''extra fast premium request''
        \<longrightarrow> resolveModel t' desc = (t' ''statusBar.unknownModel'', False))"
  by (simp add: resolveModel_def modelParsingStrategies_def Let_def)

lemma newLabels_regular:
  assumes "cents item = Some c"
      and "\<not> includesStr (description item) ''Mid-month usage paid''"
  shows "newLabels t' pw cpw us m item =
           (case parseDescription t' (description item) of
              None \<Rightarrow> []
            | Some (n, label, totalling) \<Rightarrow> if n = 0 then [] else [Some label])"
  using assms
  by (auto simp: newLabels_def monthStep_def processMidMonthPayment_def Let_def
           split: option.splits prod.splits)

text \<open>
  Claim C2, as the code has it. Take an invoice line that has \<open>cents\<close> and is not a
  mid-month payment; the label is the model name of the usage item made of the line.
  If the description matches the token-based pattern, the label is the captured model,
  verbatim, and no matcher is tried. Otherwise, if it matches the general count pattern,
  the label is resolved by the first strategy of the table whose condition holds, in this
  order: the tool-calls test, then the known-model pattern, and only then the
  extra-fast-premium phrase (the parenthesized sub-phrase, or the fast-premium category
  without one), and it is the unknown model when none holds; in particular, without
  \<open>tool calls\<close>, when both the known-model pattern and the extra-fast-premium phrase
  match, the label is the known-model match. Otherwise, if the description starts with a
  count, the label is the unknown model. A line without a count, or with the count 0,
  makes no item.
\<close>

theorem classifier_label_priority:
  assumes "cents item = Some c"
      and "\<not> includesStr (description item) ''Mid-month usage paid''"
  shows
   "(match_js False tokenBasedRegex (description item) = Some tm \<longrightarrow>
       newLabels t' pw cpw us m item
         = (if parseInt (group tm 1) = 0 then [] else [Some (group tm 2)]))
    \<and> (match_js False tokenBasedRegex (description item) = None
        \<and> match_js True originalRegex (description item) = Some om
        \<and> parseInt (group om 1) \<noteq> 0 \<longrightarrow>
          (includesStr (description item) ''tool calls'' \<longrightarrow>
             newLabels t' pw cpw us m item = [Some (t' ''api.toolCalls'')])
        \<and> (\<not> includesStr (description item) ''tool calls''
           \<and> match_js True genericModelPattern (description item) = Some gm \<longrightarrow>
             newLabels t' pw cpw us m item = [Some (group gm 1)])
        \<and> (\<not> includesStr (description item) ''tool calls''
           \<and> match_js True genericModelPattern (description item) = None
           \<and> includesStr (description item) ''extra fast premium request'' \<longrightarrow>
             newLabels t' pw cpw us m item
               = [Some (case match_js True extraFastRegex (description item) of
                          Some x \<Rightarrow> (if group x 1 = [] then t' ''api.fastPremium'' else group x 1)
                        | None \<Rightarrow> t' ''api.fastPremium'')])
        \<and> (\<not> includesStr (description item) ''tool calls''
           \<and> match_js True genericModelPattern (description item) = None
           \<and> \<not> includesStr (description item) ''extra fast premium request'' \<longrightarrow>
             newLabels t' pw cpw us m item = [Some (t' ''statusBar.unknownModel'')]))
    \<and> (match_js False tokenBasedRegex (description item) = None
        \<and> match_js True originalRegex (description item) = Some om
        \<and> parseInt (group om 1) = 0 \<longrightarrow>
          newLabels t' pw cpw us m item = [])
    \<and> (match_js False tokenBasedRegex (description item) = None
        \<and> match_js True originalRegex (description item) = None
        \<and> match_js False countRegex (description item) = Some cm \<longrightarrow>
          newLabels t' pw cpw us m item
            = (if parseInt (group cm 1) = 0 then [] else [Some (t' ''statusBar.unknownModel'')]))
    \<and> (match_js False tokenBasedRegex (description item) = None
        \<and> match_js True originalRegex (description item) = None
        \<and> match_js False countRegex (description item) = None \<longrightarrow>
          newLabels t' pw cpw us m item = [])"
  unfolding newLabels_regular [OF assms]
  using resolveModel_order [of "description item" t' gm]
  by (auto simp: parseDescription_def)

text \<open>
  For \<open>10 extra fast premium requests (gpt-4.5-preview)\<close> both matchers match; the label is
  the known-model match \<open>gpt-4.5\<close>, not the parenthesized sub-phrase \<open>gpt-4.5-preview\<close>.
\<close>

theorem extra_fast_before_known_model_counterexample:
  "includesStr extraFastKnownModel ''extra fast premium request''
   \<and> match_js True extraFastRegex extraFastKnownModel = Some [(1, ''gpt-4.5-preview'')]
   \<and> match_js True genericModelPattern extraFastKnownModel = Some [(1, ''gpt-4.5'')]
   \<and> resolveModel keyText extraFastKnownModel = (''gpt-4.5'', False)
   \<and> fst (resolveModel keyText extraFastKnownModel) \<noteq> ''gpt-4.5-preview''
   \<and> parseDescription keyText extraFastKnownModel = Some (10, ''gpt-4.5'', False)
   \<and> newLabels keyText 3 5 [] 0 (lineItem extraFastKnownModel 40) = [Some ''gpt-4.5'']"
  by code_simp

theorem classifier_label_priority_witness:
  "newLabels keyText 3 5 [] 0 (lineItem tokenLine 420) = [Some ''gpt-5-extreme'']
   \<and> newLabels keyText 3 5 [] 0 (lineItem toolCallsLine 25) = [Some ''api.toolCalls'']
   \<and> newLabels keyText 3 5 [] 0 (lineItem extraFastKnownModel 40) = [Some ''gpt-4.5'']
   \<and> newLabels keyText 3 5 [] 0 (lineItem extraFastLine 7) = [Some ''Haiku'']
   \<and> newLabels keyText 3 5 [] 0 (lineItem unknownModelLine 9) = [Some ''statusBar.unknownModel'']
   \<and> newLabels keyText 3 5 [] 0 (lineItem zeroCountLine 9) = []
   \<and> newLabels keyText 3 5 [] 0 (lineItem countOnlyLine 25) = [Some ''statusBar.unknownModel'']
   \<and> newLabels keyText 3 5 [] 0 (lineItem noCountLine 9) = []"
proof -
  have cents: "cents (lineItem d c) = Some c" and desc: "description (lineItem d c) = d" for d c
    by (simp_all add: lineItem_def)
  have key: "keyText k = k" for k
    by (simp add: keyText_def)
  have nm: "\<not> includesStr tokenLine ''Mid-month usage paid''"
    "\<not> includesStr toolCallsLine ''Mid-month usage paid''"
    "\<not> includesStr extraFastKnownModel ''Mid-month usage paid''"
    "\<not> includesStr extraFastLine ''Mid-month usage paid''"
    "\<not> includesStr unknownModelLine ''Mid-month usage paid''"
    "\<not> includesStr zeroCountLine ''Mid-month usage paid''"
    "\<not> includesStr countOnlyLine ''Mid-month usage paid''"
    "\<not> includesStr noCountLine ''Mid-month usage paid''"
    by code_simp+
  have tok: "match_js False tokenBasedRegex tokenLine = Some [(2, ''gpt-5-extreme''), (1, ''42'')]"
    "match_js False tokenBasedRegex toolCallsLine = None"
    "match_js False tokenBasedRegex extraFastKnownModel = None"
    "match_js False tokenBasedRegex extraFastLine = None"
    "match_js False tokenBasedRegex unknownModelLine = None"
    "match_js False tokenBasedRegex zeroCountLine = None"
    "match_js False tokenBasedRegex countOnlyLine = None"
    "match_js False tokenBasedRegex noCountLine = None"
    by code_simp+
  have orig: "match_js True originalRegex toolCallsLine = Some [(2, ''tool calls ''), (1, ''5'')]"
    "match_js True originalRegex extraFastKnownModel
       = Some [(2, ''extra fast premium requests (gpt-4.5-preview)''), (1, ''10'')]"
    "match_js True originalRegex extraFastLine
       = Some [(2, ''extra fast premium requests (Haiku)''), (1, ''7'')]"
    "match_js True originalRegex unknownModelLine = Some [(2, ''mystery-model requests''), (1, ''3'')]"
    "match_js True originalRegex zeroCountLine = Some [(2, ''requests''), (1, ''0'')]"
    "match_js True originalRegex countOnlyLine = None"
    "match_js True originalRegex noCountLine = None"
    by code_simp+
  have cnt: "match_js False countRegex countOnlyLine = Some [(1, ''5'')]"
    "match_js False countRegex noCountLine = None"
    by code_simp+
  have tool: "includesStr toolCallsLine ''tool calls''"
    "\<not> includesStr extraFastKnownModel ''tool calls''"
    "\<not> includesStr extraFastLine ''tool calls''"
    "\<not> includesStr unknownModelLine ''tool calls''"
    by code_simp+
  have gen: "match_js True genericModelPattern extraFastKnownModel = Some [(1, ''gpt-4.5'')]"
    "match_js True genericModelPattern extraFastLine = None"
    "match_js True genericModelPattern unknownModelLine = None"
    by code_simp+
  have fast: "includesStr extraFastLine ''extra fast premium request''"
    "\<not> includesStr unknownModelLine ''extra fast premium request''"
    "match_js True extraFastRegex extraFastLine = Some [(1, ''Haiku'')]"
    by code_simp+
  have grp: "group [(2, ''gpt-5-extreme''), (1, ''42'')] 2 = ''gpt-5-extreme''"
    "parseInt (group [(2, ''gpt-5-extreme''), (1, ''42'')] 1) \<noteq> 0"
    "parseInt (group [(2, ''tool calls ''), (1, ''5'')] 1) \<noteq> 0"
    "parseInt (group [(2, ''extra fast premium requests (gpt-4.5-preview)''), (1, ''10'')] 1) \<noteq> 0"
    "parseInt (group [(2, ''extra fast premium requests (Haiku)''), (1, ''7'')] 1) \<noteq> 0"
    "parseInt (group [(2, ''mystery-model requests''), (1, ''3'')] 1) \<noteq> 0"
    "parseInt (group [(2, ''requests''), (1, ''0'')] 1) = 0"
    "parseInt (group [(1, ''5'')] 1) \<noteq> 0"
    "group [(1, ''gpt-4.5'')] 1 = ''gpt-4.5''"
    "group [(1, ''Haiku'')] 1 = ''Haiku''"
    "''Haiku'' \<noteq> []"
    by code_simp+
  note logic = simp_thms if_True if_False option.distinct option.inject option.case
  from classifier_label_priority
         [where item = "lineItem tokenLine 420" and c = 420 and t' = keyText and pw = 3 and cpw = 5
           and us = "[]" and m = 0
           and tm = "[(2, ''gpt-5-extreme''), (1, ''42'')]"]
  have l1: "newLabels keyText 3 5 [] 0 (lineItem tokenLine 420) = [Some ''gpt-5-extreme'']"
    by (simp only: desc cents nm tok grp logic)
  from classifier_label_priority
         [where item = "lineItem toolCallsLine 25" and c = 25 and t' = keyText and pw = 3 and cpw = 5
           and us = "[]" and m = 0
           and om = "[(2, ''tool calls ''), (1, ''5'')]"]
  have l2: "newLabels keyText 3 5 [] 0 (lineItem toolCallsLine 25) = [Some ''api.toolCalls'']"
    by (simp only: desc cents nm tok orig grp tool key logic)
  from classifier_label_priority
         [where item = "lineItem extraFastKnownModel 40" and c = 40 and t' = keyText and pw = 3 and cpw = 5
           and us = "[]" and m = 0
           and om = "[(2, ''extra fast premium requests (gpt-4.5-preview)''), (1, ''10'')]"
           and gm = "[(1, ''gpt-4.5'')]"]
  have l3: "newLabels keyText 3 5 [] 0 (lineItem extraFastKnownModel 40) = [Some ''gpt-4.5'']"
    by (simp only: desc cents nm tok orig grp tool gen logic)
  from classifier_label_priority
         [where item = "lineItem extraFastLine 7" and c = 7 and t' = keyText and pw = 3 and cpw = 5
           and us = "[]" and m = 0
           and om = "[(2, ''extra fast premium requests (Haiku)''), (1, ''7'')]"]
  have l4: "newLabels keyText 3 5 [] 0 (lineItem extraFastLine 7) = [Some ''Haiku'']"
    by (simp only: desc cents nm tok orig grp tool gen fast logic)
  from classifier_label_priority
         [where item = "lineItem unknownModelLine 9" and c = 9 and t' = keyText and pw = 3 and cpw = 5
           and us = "[]" and m = 0
           and om = "[(2, ''mystery-model requests''), (1, ''3'')]"]
  have l5: "newLabels keyText 3 5 [] 0 (lineItem unknownModelLine 9) = [Some ''statusBar.unknownModel'']"
    by (simp only: desc cents nm tok orig grp tool gen fast key logic)
  from classifier_label_priority
         [where item = "lineItem zeroCountLine 9" and c = 9 and t' = keyText and pw = 3 and cpw = 5
           and us = "[]" and m = 0
           and om = "[(2, ''requests''), (1, ''0'')]"]
  have l6: "newLabels keyText 3 5 [] 0 (lineItem zeroCountLine 9) = []"
    by (simp only: desc cents nm tok orig grp logic)
  from classifier_label_priority
         [where item = "lineItem countOnlyLine 25" and c = 25 and t' = keyText and pw = 3 and cpw = 5
           and us = "[]" and m = 0
           and cm = "[(1, ''5'')]"]
  have l7: "newLabels keyText 3 5 [] 0 (lineItem countOnlyLine 25) = [Some ''statusBar.unknownModel'']"
    by (simp only: desc cents nm tok orig cnt grp key logic)
  from classifier_label_priority
         [where item = "lineItem noCountLine 9" and c = 9 and t' = keyText and pw = 3 and cpw = 5
           and us = "[]" and m = 0]
  have l8: "newLabels keyText 3 5 [] 0 (lineItem noCountLine 9) = []"
    by (simp only: desc cents nm tok orig cnt logic)
  from l1 l2 l3 l4 l5 l6 l7 l8 show ?thesis by blast
qed

section \<open>Properties of the usage aggregator\<close>

lemma usageBasedPeriods_anchor:
  assumes "getMonth d < 12"
  shows "(getDate d < usageBasedBillingDay \<longrightarrow>
            monthIndex (fst (usageBasedPeriods d)) = monthIndex (getMonth d + 1, getFullYear d) - 1)
       \<and> (\<not> getDate d < usageBasedBillingDay \<longrightarrow>
            fst (usageBasedPeriods d) = (getMonth d + 1, getFullYear d))
       \<and> (snd (fst (usageBasedPeriods d)) =
             (if getDate d < usageBasedBillingDay \<and> getMonth d = 0 then getFullYear d - 1 else getFullYear d))
       \<and> monthIndex (snd (usageBasedPeriods d)) = monthIndex (fst (usageBasedPeriods d)) - 1
       \<and> 1 \<le> fst (fst (usageBasedPeriods d)) \<and> fst (fst (usageBasedPeriods d)) \<le> 12
       \<and> 1 \<le> fst (snd (usageBasedPeriods d)) \<and> fst (snd (usageBasedPeriods d)) \<le> 12"
  using assms
  by (auto simp: usageBasedPeriods_def monthIndex_def Let_def usageBasedBillingDay_def)

lemma fetchMonthData_ok:
  assumes "fetchMonthData env w token m y = (w', Inr md)"
  shows "effects w' = effects w @ [Request (MonthlyInvoiceApi m y) True]
         \<and> (\<exists>inv. monthlyInvoiceApi env token m y = Inr inv \<and> md = monthDataOf (t env) inv)"
  using assms
  by (auto simp: fetchMonthData_def request_def Let_def split: sum.splits)

lemma checkTeamMembership_effects:
  assumes "checkTeamMembership env w token = (w', r)"
  shows "\<exists>es. effects w' = effects w @ es"
  using assms
  unfolding checkTeamMembership_def loadUserCache_def request_def saveUserCache_def Let_def
  by (auto split: sum.splits option.splits prod.splits if_splits stored.splits)


lemma premiumRequestsOf_effects:
  assumes "premiumRequestsOf env w1 token u teamInfo = (w2, r)"
  shows "\<exists>es. effects w2 = effects w1 @ es"
  using assms
  unfolding premiumRequestsOf_def getTeamUsage_def request_def Let_def
  by (auto split: sum.splits prod.splits if_splits)

lemma fetchCursorStats_ok:
  assumes run: "fetchCursorStats env w token = (w', Inr stats)"
      and per: "usageBasedPeriods (currentDate env) = ((cm, cy), (lm, ly))"
  shows "(\<exists>es. effects w' = effects w @ es @ [Request (MonthlyInvoiceApi cm cy) True,
                                                 Request (MonthlyInvoiceApi lm ly) True])
       \<and> month (currentMonth stats) = cm \<and> year (currentMonth stats) = cy
       \<and> month (lastMonth stats) = lm \<and> year (lastMonth stats) = ly
       \<and> (\<exists>inv. monthlyInvoiceApi env token cm cy = Inr inv
                \<and> usageBasedPricing (currentMonth stats) = monthDataOf (t env) inv)
       \<and> (\<exists>inv. monthlyInvoiceApi env token lm ly = Inr inv
                \<and> usageBasedPricing (lastMonth stats) = monthDataOf (t env) inv)"
proof -
  obtain w1 checked where ct: "checkTeamMembership env w token = (w1, checked)"
    by (cases "checkTeamMembership env w token")
  from checkTeamMembership_effects [OF ct] obtain es1 where e1: "effects w1 = effects w @ es1"
    by blast
  from run ct obtain teamInfo where ti: "checked = Inr teamInfo"
    by (cases checked) (auto simp: fetchCursorStats_def Let_def)
  obtain w2 premium where
    pm: "premiumRequestsOf env w1 token (hd (split token ''%3A%3A'')) teamInfo = (w2, premium)"
    by (cases "premiumRequestsOf env w1 token (hd (split token ''%3A%3A'')) teamInfo")
  from premiumRequestsOf_effects [OF pm] obtain es2 where e2: "effects w2 = effects w1 @ es2"
    by blast
  from run ct ti pm obtain pr where pr: "premium = Inr pr"
    by (cases premium) (auto simp: fetchCursorStats_def Let_def)
  obtain w3 cf where f1: "fetchMonthData env w2 token cm cy = (w3, cf)"
    by (cases "fetchMonthData env w2 token cm cy")
  from run ct ti pm pr per f1 obtain cur where cur: "cf = Inr cur"
    by (cases cf) (auto simp: fetchCursorStats_def Let_def)
  obtain w4 lf where f2: "fetchMonthData env w3 token lm ly = (w4, lf)"
    by (cases "fetchMonthData env w3 token lm ly")
  from run ct ti pm pr per f1 cur f2 obtain last where last: "lf = Inr last"
    by (cases lf) (auto simp: fetchCursorStats_def Let_def)
  from run ct ti pm pr per f1 cur f2 last
  have res: "w' = w4"
    "stats = \<lparr>currentMonth = \<lparr>month = cm, year = cy, usageBasedPricing = cur\<rparr>,
              lastMonth = \<lparr>month = lm, year = ly, usageBasedPricing = last\<rparr>,
              premiumRequests = pr\<rparr>"
    by (auto simp: fetchCursorStats_def Let_def)
  from fetchMonthData_ok [OF f1 [unfolded cur]]
  have c1: "effects w3 = effects w2 @ [Request (MonthlyInvoiceApi cm cy) True]"
    and c2: "\<exists>inv. monthlyInvoiceApi env token cm cy = Inr inv \<and> cur = monthDataOf (t env) inv"
    by auto
  from fetchMonthData_ok [OF f2 [unfolded last]]
  have l1: "effects w4 = effects w3 @ [Request (MonthlyInvoiceApi lm ly) True]"
    and l2: "\<exists>inv. monthlyInvoiceApi env token lm ly = Inr inv \<and> last = monthDataOf (t env) inv"
    by auto
  have eff: "effects w' = effects w @ (es1 @ es2) @ [Request (MonthlyInvoiceApi cm cy) True,
                                                   Request (MonthlyInvoiceApi lm ly) True]"
    using res(1) e1 e2 c1 l1 by simp
  show ?thesis
    using eff c2 l2 res(2) by (intro conjI exI [of _ "es1 @ es2"]) simp_all
qed

lemma newEffects_append: "effects w' = effects w @ es \<Longrightarrow> newEffects w w' = es"
  by (simp add: newEffects_def)

lemma checkTeamMembership_no_invoice:
  assumes "checkTeamMembership env w token = (w', r)"
  shows "\<exists>es. effects w' = effects w @ es \<and> \<not> list_ex isInvoiceRequest es"
  using assms
  unfolding checkTeamMembership_def loadUserCache_def request_def saveUserCache_def Let_def
  by (auto simp: isInvoiceRequest_def split: sum.splits option.splits prod.splits if_splits stored.splits)

lemma premiumRequestsOf_no_invoice:
  assumes "premiumRequestsOf env w1 token u teamInfo = (w2, r)"
  shows "\<exists>es. effects w2 = effects w1 @ es \<and> \<not> list_ex isInvoiceRequest es"
  using assms
  unfolding premiumRequestsOf_def getTeamUsage_def request_def Let_def
  by (auto simp: isInvoiceRequest_def split: sum.splits prod.splits if_splits)

lemma fetchMonthData_effects:
  "effects (fst (fetchMonthData env w token m y))
     = effects w @ [Request (MonthlyInvoiceApi m y) (\<not> isl (snd (fetchMonthData env w token m y)))]"
  by (auto simp: fetchMonthData_def request_def Let_def split: sum.splits)

lemma fetchCursorStats_trace:
  assumes run: "fetchCursorStats env w token = (w', r)"
      and per: "usageBasedPeriods (currentDate env) = ((cm, cy), (lm, ly))"
  shows "\<exists>es tl. effects w' = effects w @ es @ tl \<and> \<not> list_ex isInvoiceRequest es
           \<and> (tl = [] \<or> tl = [Request (MonthlyInvoiceApi cm cy) False]
               \<or> (\<exists>ok. tl = [Request (MonthlyInvoiceApi cm cy) True,
                              Request (MonthlyInvoiceApi lm ly) ok]))
           \<and> (\<not> isl r \<longrightarrow> tl = [Request (MonthlyInvoiceApi cm cy) True,
                                   Request (MonthlyInvoiceApi lm ly) True])"
proof -
  obtain w1 checked where ct: "checkTeamMembership env w token = (w1, checked)"
    by (cases "checkTeamMembership env w token")
  from checkTeamMembership_no_invoice [OF ct] obtain es1 where
    e1: "effects w1 = effects w @ es1" and n1: "\<not> list_ex isInvoiceRequest es1"
    by blast
  show ?thesis
  proof (cases checked)
    case (Inl e)
    with run ct have "w' = w1" "isl r" by (auto simp: fetchCursorStats_def Let_def)
    with e1 n1 show ?thesis by (intro exI [of _ es1] exI [of _ "[]"]) simp
  next
    case (Inr teamInfo)
    obtain w2 premium where
      pm: "premiumRequestsOf env w1 token (hd (split token ''%3A%3A'')) teamInfo = (w2, premium)"
      by (cases "premiumRequestsOf env w1 token (hd (split token ''%3A%3A'')) teamInfo")
    from premiumRequestsOf_no_invoice [OF pm] obtain es2 where
      e2: "effects w2 = effects w1 @ es2" and n2: "\<not> list_ex isInvoiceRequest es2"
      by blast
    have n12: "\<not> list_ex isInvoiceRequest (es1 @ es2)" using n1 n2 by simp
    have e12: "effects w2 = effects w @ (es1 @ es2)" using e1 e2 by simp
    show ?thesis
    proof (cases premium)
      case (Inl e)
      with run ct Inr pm have "w' = w2" "isl r" by (auto simp: fetchCursorStats_def Let_def)
      with e12 n12 show ?thesis by (intro exI [of _ "es1 @ es2"] exI [of _ "[]"]) simp
    next
      case pr: (Inr premiumRequests')
      let ?f1 = "fetchMonthData env w2 token cm cy"
      let ?f2 = "fetchMonthData env (fst ?f1) token lm ly"
      show ?thesis
      proof (cases "snd ?f1")
        case (Inl e)
        with run ct Inr pm pr per have res: "w' = fst ?f1" "isl r"
          by (auto simp: fetchCursorStats_def Let_def split: prod.splits)
        with fetchMonthData_effects [of env w2 token cm cy] Inl e12
        have "effects w' = effects w @ (es1 @ es2) @ [Request (MonthlyInvoiceApi cm cy) False]"
          by simp
        with n12 res(2) show ?thesis by blast
      next
        case cur: (Inr currentMonthData)
        from run ct Inr pm pr per cur have res: "w' = fst ?f2" "isl r = isl (snd ?f2)"
          by (auto simp: fetchCursorStats_def Let_def split: prod.splits sum.splits)
        with fetchMonthData_effects [of env w2 token cm cy]
             fetchMonthData_effects [of env "fst ?f1" token lm ly] cur e12
        have "effects w' = effects w @ (es1 @ es2)
                @ [Request (MonthlyInvoiceApi cm cy) True,
                   Request (MonthlyInvoiceApi lm ly) (\<not> isl r)]"
          by simp
        with n12 show ?thesis
          by (intro exI [of _ "es1 @ es2"]
                    exI [of _ "[Request (MonthlyInvoiceApi cm cy) True,
                                Request (MonthlyInvoiceApi lm ly) (\<not> isl r)]"]) auto
      qed
    qed
  qed
qed

lemma fetchCursorStats_both:
  assumes run: "fetchCursorStats env w token = (w', r)"
      and per: "usageBasedPeriods (currentDate env) = ((cm, cy), (lm, ly))"
      and got: "Request (MonthlyInvoiceApi cm cy) True \<in> set (newEffects w w')"
  shows "\<exists>ok. Request (MonthlyInvoiceApi lm ly) ok \<in> set (newEffects w w')"
proof -
  from fetchCursorStats_trace [OF run per] obtain es tl where
    eff: "effects w' = effects w @ es @ tl" and no: "\<not> list_ex isInvoiceRequest es"
    and tl: "tl = [] \<or> tl = [Request (MonthlyInvoiceApi cm cy) False]
               \<or> (\<exists>ok. tl = [Request (MonthlyInvoiceApi cm cy) True,
                              Request (MonthlyInvoiceApi lm ly) ok])"
    by blast
  have new: "newEffects w w' = es @ tl" using eff by (simp add: newEffects_def)
  have "Request (MonthlyInvoiceApi cm cy) True \<notin> set es"
    using no by (auto simp: list_ex_iff isInvoiceRequest_def)
  with got new have "Request (MonthlyInvoiceApi cm cy) True \<in> set tl" by simp
  with tl obtain ok where "tl = [Request (MonthlyInvoiceApi cm cy) True,
                              Request (MonthlyInvoiceApi lm ly) ok]"
    by auto
  with new show ?thesis by auto
qed

lemma fetchCursorStats_invoice_requests:
  assumes run: "fetchCursorStats env w token = (w', Inr stats)"
      and per: "usageBasedPeriods (currentDate env) = ((cm, cy), (lm, ly))"
  shows "filter isInvoiceRequest (newEffects w w')
           = [Request (MonthlyInvoiceApi cm cy) True, Request (MonthlyInvoiceApi lm ly) True]"
proof -
  from fetchCursorStats_trace [OF run per] obtain es where
    eff: "effects w' = effects w @ es @ [Request (MonthlyInvoiceApi cm cy) True,
                                       Request (MonthlyInvoiceApi lm ly) True]"
    and no: "\<not> list_ex isInvoiceRequest es"
    by auto
  from no have "filter isInvoiceRequest es = []"
    by (auto simp: list_ex_iff filter_empty_conv)
  with eff show ?thesis
    by (simp add: newEffects_def isInvoiceRequest_def)
qed

text \<open>
  Claim C4, as the code has it. At a date whose day of month is before the billing day 3,
  the active billing period is the calendar month before the current one, and its year
  is the current year minus one exactly when the current month is January; at any other
  date it is the current calendar month. The last period is the month before the active
  one. Every refresh that returns a snapshot has requested the invoices of exactly these
  two months, the active one and then the one before, and the snapshot holds, under
  these months, the month records built from the two invoices that the feed answered.
  In every refresh, failed or not, that obtained the invoice of the active month, the
  invoice of the month before was requested as well.
\<close>

theorem billing_period_anchor:
  assumes valid: "getMonth (currentDate env) < 12"
  shows "(getDate (currentDate env) < usageBasedBillingDay \<longrightarrow>
            monthIndex (fst (usageBasedPeriods (currentDate env)))
              = monthIndex (getMonth (currentDate env) + 1, getFullYear (currentDate env)) - 1)
       \<and> (\<not> getDate (currentDate env) < usageBasedBillingDay \<longrightarrow>
            fst (usageBasedPeriods (currentDate env))
              = (getMonth (currentDate env) + 1, getFullYear (currentDate env)))
       \<and> snd (fst (usageBasedPeriods (currentDate env)))
           = (if getDate (currentDate env) < usageBasedBillingDay \<and> getMonth (currentDate env) = 0
              then getFullYear (currentDate env) - 1 else getFullYear (currentDate env))
       \<and> monthIndex (snd (usageBasedPeriods (currentDate env)))
           = monthIndex (fst (usageBasedPeriods (currentDate env))) - 1
       \<and> 1 \<le> fst (fst (usageBasedPeriods (currentDate env)))
       \<and> fst (fst (usageBasedPeriods (currentDate env))) \<le> 12
       \<and> 1 \<le> fst (snd (usageBasedPeriods (currentDate env)))
       \<and> fst (snd (usageBasedPeriods (currentDate env))) \<le> 12
       \<and> (fetchCursorStats env w token = (w', Inr stats) \<longrightarrow>
            (month (currentMonth stats), year (currentMonth stats))
              = fst (usageBasedPeriods (currentDate env))
          \<and> (month (lastMonth stats), year (lastMonth stats))
              = snd (usageBasedPeriods (currentDate env))
          \<and> filter isInvoiceRequest (newEffects w w')
              = [Request (MonthlyInvoiceApi (month (currentMonth stats)) (year (currentMonth stats))) True,
                 Request (MonthlyInvoiceApi (month (lastMonth stats)) (year (lastMonth stats))) True]
          \<and> (\<exists>invoiceData.
                monthlyInvoiceApi env token (month (currentMonth stats)) (year (currentMonth stats))
                  = Inr invoiceData
                \<and> usageBasedPricing (currentMonth stats) = monthDataOf (t env) invoiceData)
          \<and> (\<exists>invoiceData.
                monthlyInvoiceApi env token (month (lastMonth stats)) (year (lastMonth stats))
                  = Inr invoiceData
                \<and> usageBasedPricing (lastMonth stats) = monthDataOf (t env) invoiceData))
       \<and> (Request (MonthlyInvoiceApi (fst (fst (usageBasedPeriods (currentDate env))))
                                      (snd (fst (usageBasedPeriods (currentDate env))))) True
              \<in> set (newEffects w (fst (fetchCursorStats env w token)))
            \<longrightarrow> (\<exists>ok. Request (MonthlyInvoiceApi (fst (snd (usageBasedPeriods (currentDate env))))
                                                (snd (snd (usageBasedPeriods (currentDate env))))) ok
                          \<in> set (newEffects w (fst (fetchCursorStats env w token)))))"
proof -
  obtain cm cy lm ly where per: "usageBasedPeriods (currentDate env) = ((cm, cy), (lm, ly))"
    by (metis surj_pair)
  have part2: "fetchCursorStats env w token = (w', Inr stats) \<longrightarrow>
            (month (currentMonth stats), year (currentMonth stats))
              = fst (usageBasedPeriods (currentDate env))
          \<and> (month (lastMonth stats), year (lastMonth stats))
              = snd (usageBasedPeriods (currentDate env))
          \<and> filter isInvoiceRequest (newEffects w w')
              = [Request (MonthlyInvoiceApi (month (currentMonth stats)) (year (currentMonth stats))) True,
                 Request (MonthlyInvoiceApi (month (lastMonth stats)) (year (lastMonth stats))) True]
          \<and> (\<exists>invoiceData.
                monthlyInvoiceApi env token (month (currentMonth stats)) (year (currentMonth stats))
                  = Inr invoiceData
                \<and> usageBasedPricing (currentMonth stats) = monthDataOf (t env) invoiceData)
          \<and> (\<exists>invoiceData.
                monthlyInvoiceApi env token (month (lastMonth stats)) (year (lastMonth stats))
                  = Inr invoiceData
                \<and> usageBasedPricing (lastMonth stats) = monthDataOf (t env) invoiceData)"
  proof
    assume run: "fetchCursorStats env w token = (w', Inr stats)"
    from fetchCursorStats_ok [OF run per]
    have lab: "month (currentMonth stats) = cm" "year (currentMonth stats) = cy"
              "month (lastMonth stats) = lm" "year (lastMonth stats) = ly"
      and c: "\<exists>inv. monthlyInvoiceApi env token cm cy = Inr inv
                \<and> usageBasedPricing (currentMonth stats) = monthDataOf (t env) inv"
      and l: "\<exists>inv. monthlyInvoiceApi env token lm ly = Inr inv
                \<and> usageBasedPricing (lastMonth stats) = monthDataOf (t env) inv"
      by blast+
    from fetchCursorStats_invoice_requests [OF run per] lab c l
    show "(month (currentMonth stats), year (currentMonth stats))
              = fst (usageBasedPeriods (currentDate env))
          \<and> (month (lastMonth stats), year (lastMonth stats))
              = snd (usageBasedPeriods (currentDate env))
          \<and> filter isInvoiceRequest (newEffects w w')
              = [Request (MonthlyInvoiceApi (month (currentMonth stats)) (year (currentMonth stats))) True,
                 Request (MonthlyInvoiceApi (month (lastMonth stats)) (year (lastMonth stats))) True]
          \<and> (\<exists>invoiceData.
                monthlyInvoiceApi env token (month (currentMonth stats)) (year (currentMonth stats))
                  = Inr invoiceData
                \<and> usageBasedPricing (currentMonth stats) = monthDataOf (t env) invoiceData)
          \<and> (\<exists>invoiceData.
                monthlyInvoiceApi env token (month (lastMonth stats)) (year (lastMonth stats))
                  = Inr invoiceData
                \<and> usageBasedPricing (lastMonth stats) = monthDataOf (t env) invoiceData)"
      by (simp add: per)
  qed
  have part3: "Request (MonthlyInvoiceApi (fst (fst (usageBasedPeriods (currentDate env))))
                                      (snd (fst (usageBasedPeriods (currentDate env))))) True
              \<in> set (newEffects w (fst (fetchCursorStats env w token)))
            \<longrightarrow> (\<exists>ok. Request (MonthlyInvoiceApi (fst (snd (usageBasedPeriods (currentDate env))))
                                                (snd (snd (usageBasedPeriods (currentDate env))))) ok
                          \<in> set (newEffects w (fst (fetchCursorStats env w token))))"
    using fetchCursorStats_both [OF prod.collapse [symmetric] per] by (simp add: per)
  from usageBasedPeriods_anchor [OF valid] part2 part3
  show ?thesis by blast
qed

text \<open>
  A refresh in which the first request fails ends with the error and requests no
  invoice: not every refresh fetches the two months.
\<close>

theorem refresh_without_fetch_counterexample:
  "snd (fetchCursorStats offlineEnv emptyWorld ''user%3A%3Ajwt'') = Inl (Error ''Network Error'')
   \<and> newEffects emptyWorld (fst (fetchCursorStats offlineEnv emptyWorld ''user%3A%3Ajwt''))
       = [CacheRead, Request UsageApi False]
   \<and> filter isInvoiceRequest
        (newEffects emptyWorld (fst (fetchCursorStats offlineEnv emptyWorld ''user%3A%3Ajwt''))) = []"
  by code_simp

theorem billing_period_anchor_witness:
  "getMonth (currentDate onlineEnv) < 12
   \<and> getDate (currentDate onlineEnv) < usageBasedBillingDay
   \<and> usageBasedPeriods (currentDate onlineEnv) = ((12, 2024), (11, 2024))
   \<and> \<not> isl (snd (fetchCursorStats onlineEnv emptyWorld ''user%3A%3Ajwt''))
   \<and> filter isInvoiceRequest
        (newEffects emptyWorld (fst (fetchCursorStats onlineEnv emptyWorld ''user%3A%3Ajwt'')))
       = [Request (MonthlyInvoiceApi 12 2024) True, Request (MonthlyInvoiceApi 11 2024) True]
   \<and> map_sum id usageBasedPricing
        (map_sum id currentMonth (snd (fetchCursorStats onlineEnv emptyWorld ''user%3A%3Ajwt'')))
       = Inr (monthDataOf keyText twoCredits)
   \<and> map_sum id usageBasedPricing
        (map_sum id lastMonth (snd (fetchCursorStats onlineEnv emptyWorld ''user%3A%3Ajwt'')))
       = Inr (monthDataOf keyText emptyInvoice)
   \<and> getMonth (currentDate juneEnv) < 12
   \<and> \<not> getDate (currentDate juneEnv) < usageBasedBillingDay
   \<and> fst (usageBasedPeriods (currentDate juneEnv)) = (6, 2025)"
proof -
  let ?run = "fetchCursorStats onlineEnv emptyWorld ''user%3A%3Ajwt''"
  have v: "getMonth (currentDate onlineEnv) < 12"
    by (simp add: onlineEnv_def)
  have early: "getDate (currentDate onlineEnv) < usageBasedBillingDay"
    by (simp add: onlineEnv_def usageBasedBillingDay_def)
  have per: "usageBasedPeriods (currentDate onlineEnv) = ((12, 2024), (11, 2024))"
    by (simp add: onlineEnv_def usageBasedPeriods_def usageBasedBillingDay_def)
  have ok: "\<not> isl (snd ?run)"
    by code_simp
  then obtain stats where st: "snd ?run = Inr stats"
    by (cases "snd ?run") auto
  then have run: "?run = (fst ?run, Inr stats)"
    by (metis prod.collapse)
  have dec: "monthlyInvoiceApi onlineEnv ''user%3A%3Ajwt'' 12 2024 = Inr twoCredits"
    and nov: "monthlyInvoiceApi onlineEnv ''user%3A%3Ajwt'' 11 2024 = Inr emptyInvoice"
    and tt: "t onlineEnv = keyText"
    by (simp_all add: onlineEnv_def)
  from billing_period_anchor [OF v, of emptyWorld "''user%3A%3Ajwt''" "fst ?run" stats] run
  have a: "(month (currentMonth stats), year (currentMonth stats))
             = fst (usageBasedPeriods (currentDate onlineEnv))"
    and b: "(month (lastMonth stats), year (lastMonth stats))
             = snd (usageBasedPeriods (currentDate onlineEnv))"
    and c: "filter isInvoiceRequest (newEffects emptyWorld (fst ?run))
              = [Request (MonthlyInvoiceApi (month (currentMonth stats)) (year (currentMonth stats))) True,
                 Request (MonthlyInvoiceApi (month (lastMonth stats)) (year (lastMonth stats))) True]"
    and d: "\<exists>invoiceData.
              monthlyInvoiceApi onlineEnv ''user%3A%3Ajwt'' (month (currentMonth stats))
                  (year (currentMonth stats)) = Inr invoiceData
              \<and> usageBasedPricing (currentMonth stats) = monthDataOf (t onlineEnv) invoiceData"
    and e: "\<exists>invoiceData.
              monthlyInvoiceApi onlineEnv ''user%3A%3Ajwt'' (month (lastMonth stats))
                  (year (lastMonth stats)) = Inr invoiceData
              \<and> usageBasedPricing (lastMonth stats) = monthDataOf (t onlineEnv) invoiceData"
    by blast+
  from a b per have m: "month (currentMonth stats) = 12" "year (currentMonth stats) = 2024"
    "month (lastMonth stats) = 11" "year (lastMonth stats) = 2024"
    by simp_all
  from c have reqs: "filter isInvoiceRequest (newEffects emptyWorld (fst ?run))
      = [Request (MonthlyInvoiceApi 12 2024) True, Request (MonthlyInvoiceApi 11 2024) True]"
    unfolding m by simp
  from d have cur: "usageBasedPricing (currentMonth stats) = monthDataOf keyText twoCredits"
    unfolding m dec tt by simp
  from e have last: "usageBasedPricing (lastMonth stats) = monthDataOf keyText emptyInvoice"
    unfolding m nov tt by simp
  have content: "map_sum id usageBasedPricing (map_sum id currentMonth (snd ?run))
                   = Inr (monthDataOf keyText twoCredits)"
    "map_sum id usageBasedPricing (map_sum id lastMonth (snd ?run))
                   = Inr (monthDataOf keyText emptyInvoice)"
    using cur last by (simp_all add: st)
  have jv: "getMonth (currentDate juneEnv) < 12"
    by (simp add: juneEnv_def)
  have late: "\<not> getDate (currentDate juneEnv) < usageBasedBillingDay"
    by (simp add: juneEnv_def usageBasedBillingDay_def)
  from billing_period_anchor [OF jv, of emptyWorld "''user%3A%3Ajwt''"] late
  have june: "fst (usageBasedPeriods (currentDate juneEnv)) = (6, 2025)"
    by (simp add: juneEnv_def)
  from v early per ok reqs content jv late june show ?thesis by blast
qed

end
